theory Spec2Isabelle
  imports Complex_Main
begin

section \<open>JavaScript values of the dashboard\<close>

text \<open>
  The dashboard (\<^verbatim>\<open>frontend/src/App.js\<close>) computes with JavaScript numbers. A number is
  a finite value or one of the three IEEE special values. Finite values are kept as exact
  rationals. The result of an operation overflows to an infinity as a double does; it is not
  rounded to 53 bits, and the sign of zero is not modelled. Division by zero and the
  arithmetic of \<open>NaN\<close> and the infinities follow ECMAScript.
\<close>

datatype jsnum = Fin rat | NaN | PosInf | NegInf

text \<open>
  Overflow: a result whose magnitude reaches \<open>2^1024 - 2^970\<close>, half a unit in the last
  place above the largest double, is an infinity.
\<close>

definition double_overflow :: rat where
  "double_overflow = 2 ^ 1024 - 2 ^ 970"

definition finite_result :: "rat \<Rightarrow> jsnum" where
  "finite_result r =
     (if double_overflow \<le> \<bar>r\<bar> then (if 0 < r then PosInf else NegInf) else Fin r)"

text \<open>The operator \<^verbatim>\<open>/\<close> on numbers.\<close>

fun js_div :: "jsnum \<Rightarrow> jsnum \<Rightarrow> jsnum" where
  "js_div NaN _ = NaN"
| "js_div _ NaN = NaN"
| "js_div (Fin a) (Fin b) =
     (if b = 0 then (if a = 0 then NaN else if 0 < a then PosInf else NegInf)
      else finite_result (a / b))"
| "js_div (Fin a) PosInf = Fin 0"
| "js_div (Fin a) NegInf = Fin 0"
| "js_div PosInf (Fin b) = (if 0 \<le> b then PosInf else NegInf)"
| "js_div NegInf (Fin b) = (if 0 \<le> b then NegInf else PosInf)"
| "js_div _ _ = NaN"

text \<open>The operator \<^verbatim>\<open>*\<close> on numbers.\<close>

fun js_mul :: "jsnum \<Rightarrow> jsnum \<Rightarrow> jsnum" where
  "js_mul NaN _ = NaN"
| "js_mul _ NaN = NaN"
| "js_mul (Fin a) (Fin b) = finite_result (a * b)"
| "js_mul (Fin a) PosInf = (if a = 0 then NaN else if 0 < a then PosInf else NegInf)"
| "js_mul (Fin a) NegInf = (if a = 0 then NaN else if 0 < a then NegInf else PosInf)"
| "js_mul PosInf (Fin b) = (if b = 0 then NaN else if 0 < b then PosInf else NegInf)"
| "js_mul NegInf (Fin b) = (if b = 0 then NaN else if 0 < b then NegInf else PosInf)"
| "js_mul PosInf PosInf = PosInf"
| "js_mul NegInf NegInf = PosInf"
| "js_mul _ _ = NegInf"

text \<open>The comparison \<^verbatim>\<open>a < b\<close> on numbers; \<^verbatim>\<open>a > b\<close> is \<open>js_lt b a\<close>.\<close>

fun js_lt :: "jsnum \<Rightarrow> jsnum \<Rightarrow> bool" where
  "js_lt NaN _ = False"
| "js_lt _ NaN = False"
| "js_lt (Fin a) (Fin b) = (a < b)"
| "js_lt (Fin a) PosInf = True"
| "js_lt (Fin a) NegInf = False"
| "js_lt PosInf _ = False"
| "js_lt NegInf NegInf = False"
| "js_lt NegInf _ = True"

text \<open>\<^verbatim>\<open>Math.min(a, b)\<close>: \<open>NaN\<close> when an argument is \<open>NaN\<close>.\<close>

fun js_min :: "jsnum \<Rightarrow> jsnum \<Rightarrow> jsnum" where
  "js_min NaN _ = NaN"
| "js_min _ NaN = NaN"
| "js_min a b = (if js_lt b a then b else a)"

text \<open>
  A field of the JSON document that the code treats as a number is absent
  (\<^verbatim>\<open>undefined\<close>) or a number; \<open>ToNumber\<close> of \<^verbatim>\<open>undefined\<close> is \<open>NaN\<close>.
\<close>

type_synonym numfield = "jsnum option"

fun ToNumber :: "numfield \<Rightarrow> jsnum" where
  "ToNumber None = NaN"
| "ToNumber (Some n) = n"

text \<open>
  A value that is only displayed, or the value of a JSX expression: absent, a number or a
  string. Numbers are kept as values, their conversion to text by React is not modelled.
\<close>

datatype jsval = Undefined | Num jsnum | Str string

fun of_numfield :: "numfield \<Rightarrow> jsval" where
  "of_numfield None = Undefined"
| "of_numfield (Some n) = Num n"

text \<open>Truthiness: \<^verbatim>\<open>undefined\<close>, \<open>0\<close>, \<open>NaN\<close> and the empty string are falsy.\<close>

fun truthy :: "jsval \<Rightarrow> bool" where
  "truthy Undefined = False"
| "truthy (Num (Fin r)) = (r \<noteq> 0)"
| "truthy (Num NaN) = False"
| "truthy (Num _) = True"
| "truthy (Str s) = (s \<noteq> [])"

text \<open>The operator \<^verbatim>\<open>a || b\<close>.\<close>

definition js_or :: "jsval \<Rightarrow> jsval \<Rightarrow> jsval" where
  "js_or a b = (if truthy a then a else b)"

text \<open>\<^verbatim>\<open>a || b\<close> where \<open>a\<close> is a numeric field and \<open>b\<close> a number: the result is a number.\<close>

definition num_or :: "numfield \<Rightarrow> jsnum \<Rightarrow> jsnum" where
  "num_or a b = (if truthy (of_numfield a) then ToNumber a else b)"

subsection \<open>Number.prototype.toFixed\<close>

text \<open>The character of a decimal digit; the index is always below 10.\<close>

definition digit_char :: "nat \<Rightarrow> char" where
  "digit_char n = ''0123456789'' ! (n mod 10)"

text \<open>The decimal digits of a natural number, \<open>''0''\<close> for zero.\<close>

function digits :: "nat \<Rightarrow> string" where
  "digits n = (if n < 10 then [digit_char n] else digits (n div 10) @ [digit_char (n mod 10)])"
  by pat_completeness auto
termination
  by (relation "measure (\<lambda>n. n)") auto

declare digits.simps [simp del]

text \<open>
  \<^verbatim>\<open>x.toFixed(f)\<close> after ECMAScript: the special values print their names; a negative
  value prints a minus sign and its magnitude; a magnitude below \<open>10^21\<close> is rounded to the
  nearest multiple of \<open>10^-f\<close> (the larger one on a tie) and printed with exactly \<open>f\<close>
  decimals. From \<open>10^21\<close> on ECMAScript prints the shortest round-trip form of the double in
  exponent notation, which depends on the double's bits: that printer is the parameter
  \<open>big\<close>.
\<close>

definition toFixed :: "(rat \<Rightarrow> string) \<Rightarrow> nat \<Rightarrow> jsnum \<Rightarrow> string" where
  "toFixed big f x =
     (case x of
        NaN \<Rightarrow> ''NaN''
      | PosInf \<Rightarrow> ''Infinity''
      | NegInf \<Rightarrow> ''-Infinity''
      | Fin r \<Rightarrow>
          (let s = (if r < 0 then ''-'' else '''');
               a = \<bar>r\<bar>
           in if 10 ^ 21 \<le> a then s @ big a
              else
                (let n = nat \<lfloor>a * 10 ^ f + 1 / 2\<rfloor>;
                     m = digits n;
                     m' = (if f = 0 then m
                           else
                             (let z = (if length m \<le> f
                                       then replicate (f + 1 - length m) (CHR ''0'') @ m
                                       else m);
                                  k = length z
                              in take (k - f) z @ ''.'' @ drop (k - f) z))
                 in s @ m')))"

section \<open>The state of the App component and its data fetch\<close>

text \<open>
  The shape of the JSON document that \<^verbatim>\<open>/api/gpu-status\<close> returns, as the component
  reads it. Every key may be absent (\<open>None\<close>, or \<open>Undefined\<close> for a displayed value). A key
  on which the code calculates, compares or calls \<^verbatim>\<open>toFixed\<close> is a number when present;
  a key whose text the code takes apart is a string when present. Field names carry a
  prefix, since a record's fields are constants of the theory.
\<close>

record cpu_info =
  cpu_usage_percent :: numfield
  cpu_cores :: jsval

record memory_info =
  mem_usage_percent :: numfield
  mem_used :: jsval
  mem_total :: jsval

record disk_info =
  disk_usage_percent :: numfield
  disk_used :: jsval
  disk_total :: jsval

record storage_summary_info =
  sum_used :: jsval
  sum_total :: jsval
  sum_available :: jsval
  sum_usage_percent :: numfield

record storage_disk =
  sd_mount_point :: "string option"
  sd_used :: jsval
  sd_total :: jsval
  sd_available :: jsval
  sd_usage_percent :: numfield

record system_resources_info =
  sr_cpu :: "cpu_info option"
  sr_memory :: "memory_info option"
  sr_disk :: "disk_info option"
  sr_storage_disks :: "storage_disk list option"
  sr_storage_summary :: "storage_summary_info option"

record gpu_record =
  gpu_id :: jsval
  gpu_name :: jsval
  memory_used :: numfield
  memory_total :: numfield
  temperature :: jsval
  power_usage :: jsval
  gpu_user :: jsval

record user_session =
  terminal :: jsval
  session_from :: "string option"

record user_resource =
  username :: jsval
  cpu_usage :: numfield
  memory_usage :: numfield
  gpu_memory_usage :: numfield
  storage_usage :: numfield
  sessions :: "user_session list option"

record snapshot_json =
  gpus :: "gpu_record list option"
  active_users :: "jsval list option"
  user_resources :: "user_resource list option"
  system_resources :: "system_resources_info option"

text \<open>
  The four state variables of \<^verbatim>\<open>App\<close>. \<open>error\<close> is \<^verbatim>\<open>null\<close> (\<open>None\<close>) or a message;
  \<open>lastUpdated\<close> is a \<^verbatim>\<open>Date\<close>, kept as its time in milliseconds.
\<close>

record app_state =
  gpuData :: snapshot_json
  loading :: bool
  error :: "string option"
  lastUpdated :: nat

text \<open>The initial values passed to \<^verbatim>\<open>useState\<close>; \<open>now\<close> is the time of the first render.\<close>

definition initial_state :: "nat \<Rightarrow> app_state" where
  "initial_state now =
     \<lparr> gpuData = \<lparr> gpus = Some [], active_users = Some [], user_resources = Some [],
                   system_resources = Some \<lparr> sr_cpu = None, sr_memory = None, sr_disk = None,
                     sr_storage_disks = None, sr_storage_summary = None \<rparr> \<rparr>,
       loading = True, error = None, lastUpdated = now \<rparr>"

text \<open>
  \<^verbatim>\<open>const API_URL = process.env.REACT_APP_API_URL || 'http://localhost:8000'\<close>; the
  environment variable is the parameter.
\<close>

definition API_URL :: "string option \<Rightarrow> string" where
  "API_URL env =
     (case env of
        None \<Rightarrow> ''http://localhost:8000''
      | Some u \<Rightarrow> (if u \<noteq> [] then u else ''http://localhost:8000''))"

text \<open>The outcome of \<^verbatim>\<open>await axios.get(...)\<close>: the promise rejects, or resolves to a response.\<close>

datatype 'a response = Rejected | Resolved 'a

definition connect_message :: "string option \<Rightarrow> string" where
  "connect_message env =
     ''Failed to connect to the server at '' @ API_URL env @
     ''/api/gpu-status. Please ensure the server is running and the SSH connection is properly configured. Demo mode has been disabled.''"

text \<open>
  \<^verbatim>\<open>fetchData\<close> from the point where the request settles: the \<^verbatim>\<open>try\<close> branch stores the
  document, the time and clears the error, the \<^verbatim>\<open>catch\<close> branch stores the message, and
  \<^verbatim>\<open>finally\<close> clears the loading flag. \<open>now\<close> is the value of \<^verbatim>\<open>new Date()\<close>.
\<close>

definition fetchData :: "string option \<Rightarrow> nat \<Rightarrow> snapshot_json response \<Rightarrow> app_state \<Rightarrow> app_state" where
  "fetchData env now resp st =
     (case resp of
        Resolved d \<Rightarrow> st\<lparr> gpuData := d, lastUpdated := now, error := None, loading := False \<rparr>
      | Rejected \<Rightarrow> st\<lparr> error := Some (connect_message env), loading := False \<rparr>)"

text \<open>
  The earlier revision of the component (\<^verbatim>\<open>src/unnamed/part_000\<close>) has the same
  \<^verbatim>\<open>fetchData\<close> with a fixed message.
\<close>

definition fetchData_part_000 :: "nat \<Rightarrow> snapshot_json response \<Rightarrow> app_state \<Rightarrow> app_state" where
  "fetchData_part_000 now resp st =
     (case resp of
        Resolved d \<Rightarrow> st\<lparr> gpuData := d, lastUpdated := now, error := None, loading := False \<rparr>
      | Rejected \<Rightarrow>
          st\<lparr> error := Some ''Failed to fetch GPU data. Please check if the backend server is running.'',
              loading := False \<rparr>)"

text \<open>\<^verbatim>\<open>handleRefresh\<close> sets the loading flag before it starts the fetch.\<close>

definition handleRefresh :: "string option \<Rightarrow> nat \<Rightarrow> snapshot_json response \<Rightarrow> app_state \<Rightarrow> app_state" where
  "handleRefresh env now resp st = fetchData env now resp (st\<lparr> loading := True \<rparr>)"

text \<open>
  The effect run once after mounting: it calls \<^verbatim>\<open>fetchData\<close> and registers it with
  \<^verbatim>\<open>setInterval\<close>; the delay is in milliseconds.
\<close>

datatype timer_cmd = Call_fetchData | SetInterval_fetchData nat

definition useEffect_mount :: "timer_cmd list" where
  "useEffect_mount = [Call_fetchData, SetInterval_fetchData 5000]"

fun interval_of :: "timer_cmd \<Rightarrow> nat list" where
  "interval_of Call_fetchData = []"
| "interval_of (SetInterval_fetchData d) = [d]"

section \<open>Rendering\<close>

text \<open>
  The return value of \<^verbatim>\<open>App\<close>, reduced to what depends on the state: for every JSX
  expression \<^verbatim>\<open>{...}\<close> and every computed property its value. The constant text and
  styling around them, the zebra striping of table rows and the colour of the temperature
  (\<^verbatim>\<open>parseInt(gpu.temperature) * 1.1\<close>, which cannot throw) are left out. Reading a
  property of \<^verbatim>\<open>undefined\<close> or calling a method of it throws a \<open>TypeError\<close>, which
  aborts the whole render.
\<close>

datatype js_error = TypeError

text \<open>\<^verbatim>\<open>xs.map(f)\<close> with a callback that may throw.\<close>

fun map_throw :: "('a \<Rightarrow> js_error + 'b) \<Rightarrow> 'a list \<Rightarrow> js_error + 'b list" where
  "map_throw f [] = Inr []"
| "map_throw f (x # xs) =
     (case f x of
        Inl e \<Rightarrow> Inl e
      | Inr y \<Rightarrow> (case map_throw f xs of Inl e \<Rightarrow> Inl e | Inr ys \<Rightarrow> Inr (y # ys)))"

text \<open>Optional chaining \<^verbatim>\<open>obj?.field\<close>, for a numeric and for a displayed field.\<close>

definition opt_num :: "'a option \<Rightarrow> ('a \<Rightarrow> numfield) \<Rightarrow> numfield" where
  "opt_num obj f = (case obj of None \<Rightarrow> None | Some r \<Rightarrow> f r)"

definition opt_val :: "'a option \<Rightarrow> ('a \<Rightarrow> jsval) \<Rightarrow> jsval" where
  "opt_val obj f = (case obj of None \<Rightarrow> Undefined | Some r \<Rightarrow> f r)"

text \<open>The optional call \<^verbatim>\<open>x?.toFixed(f)\<close> on a numeric field.\<close>

definition opt_toFixed :: "(rat \<Rightarrow> string) \<Rightarrow> nat \<Rightarrow> numfield \<Rightarrow> jsval" where
  "opt_toFixed big f x = (case x of None \<Rightarrow> Undefined | Some n \<Rightarrow> Str (toFixed big f n))"

text \<open>
  \<^verbatim>\<open>getProgressColor\<close>; where the argument is a field that may be absent, the comparison
  converts it with \<open>ToNumber\<close>.
\<close>

definition getProgressColor :: "jsnum \<Rightarrow> string" where
  "getProgressColor v =
     (if js_lt v (Fin 50) then ''#4caf50''
      else if js_lt v (Fin 80) then ''#ff9800''
      else ''#f44336'')"

subsection \<open>The three system resource cards\<close>

record gauge_card =
  gc_value :: jsnum
  gc_color :: string
  gc_percent :: jsval
  gc_line :: "jsval list"

definition cpu_card :: "(rat \<Rightarrow> string) \<Rightarrow> cpu_info option \<Rightarrow> gauge_card" where
  "cpu_card big c =
     \<lparr> gc_value = num_or (opt_num c cpu_usage_percent) (Fin 0),
       gc_color = getProgressColor (num_or (opt_num c cpu_usage_percent) (Fin 0)),
       gc_percent = js_or (opt_toFixed big 1 (opt_num c cpu_usage_percent)) (Num (Fin 0)),
       gc_line = [js_or (opt_val c cpu_cores) (Str ''N/A'')] \<rparr>"

definition memory_card :: "(rat \<Rightarrow> string) \<Rightarrow> memory_info option \<Rightarrow> gauge_card" where
  "memory_card big m =
     \<lparr> gc_value = num_or (opt_num m mem_usage_percent) (Fin 0),
       gc_color = getProgressColor (num_or (opt_num m mem_usage_percent) (Fin 0)),
       gc_percent = js_or (opt_toFixed big 1 (opt_num m mem_usage_percent)) (Num (Fin 0)),
       gc_line = [js_or (opt_val m mem_used) (Num (Fin 0)),
                  js_or (opt_val m mem_total) (Num (Fin 0))] \<rparr>"

definition disk_card :: "disk_info option \<Rightarrow> gauge_card" where
  "disk_card d =
     \<lparr> gc_value = num_or (opt_num d disk_usage_percent) (Fin 0),
       gc_color = getProgressColor (num_or (opt_num d disk_usage_percent) (Fin 0)),
       gc_percent = Num (num_or (opt_num d disk_usage_percent) (Fin 0)),
       gc_line = [js_or (opt_val d disk_used) (Str ''N/A''),
                  js_or (opt_val d disk_total) (Str ''N/A'')] \<rparr>"

subsection \<open>The storage section\<close>

record summary_card =
  sc_used :: jsval
  sc_total :: jsval
  sc_value :: jsnum
  sc_color :: string
  sc_available :: jsval

definition storage_summary_card :: "storage_summary_info option \<Rightarrow> summary_card" where
  "storage_summary_card s =
     \<lparr> sc_used = js_or (opt_val s sum_used) (Str ''0G''),
       sc_total = js_or (opt_val s sum_total) (Str ''0G''),
       sc_value = num_or (opt_num s sum_usage_percent) (Fin 0),
       sc_color = getProgressColor (num_or (opt_num s sum_usage_percent) (Fin 0)),
       sc_available = js_or (opt_val s sum_available) (Str ''0G'') \<rparr>"

record partition_card =
  pc_title :: string
  pc_used :: jsval
  pc_total :: jsval
  pc_value :: jsval
  pc_color :: string
  pc_available :: jsval

text \<open>\<^verbatim>\<open>s.split('/').pop()\<close>: what follows the last slash.\<close>

definition last_segment :: "string \<Rightarrow> string" where
  "last_segment s = rev (takeWhile (\<lambda>c. c \<noteq> CHR ''/'') (rev s))"

definition storage_disk_card :: "storage_disk \<Rightarrow> js_error + partition_card" where
  "storage_disk_card disk =
     (case sd_mount_point disk of
        None \<Rightarrow> Inl TypeError
      | Some mp \<Rightarrow>
          Inr \<lparr> pc_title = last_segment mp,
                pc_used = sd_used disk,
                pc_total = sd_total disk,
                pc_value = of_numfield (sd_usage_percent disk),
                pc_color = getProgressColor (ToNumber (sd_usage_percent disk)),
                pc_available = sd_available disk \<rparr>)"

record storage_section =
  ss_summary :: summary_card
  ss_disks :: "partition_card list"

text \<open>
  \<^verbatim>\<open>system_resources.storage_disks && system_resources.storage_disks.length > 0 && (...)\<close>:
  nothing is rendered for an absent or empty list.
\<close>

definition storage_section_of :: "system_resources_info \<Rightarrow> js_error + storage_section option" where
  "storage_section_of sr =
     (case sr_storage_disks sr of
        None \<Rightarrow> Inr None
      | Some ds \<Rightarrow>
          (if 0 < length ds
           then (case map_throw storage_disk_card ds of
                   Inl e \<Rightarrow> Inl e
                 | Inr cards \<Rightarrow>
                     Inr (Some \<lparr> ss_summary = storage_summary_card (sr_storage_summary sr),
                                 ss_disks = cards \<rparr>))
           else Inr None))"

subsection \<open>The GPU cards\<close>

record gpu_card =
  gv_id :: jsval
  gv_name :: jsval
  gv_memory_used :: jsval
  gv_memory_total :: jsval
  gv_value :: jsnum
  gv_color :: string
  gv_temperature :: jsval
  gv_power_usage :: jsval
  gv_user :: jsval

text \<open>\<^verbatim>\<open>(gpu.memory_used / gpu.memory_total) * 100\<close>, written twice in the card.\<close>

definition gpu_usage :: "'a gpu_record_scheme \<Rightarrow> jsnum" where
  "gpu_usage gpu =
     js_mul (js_div (ToNumber (memory_used gpu)) (ToNumber (memory_total gpu))) (Fin 100)"

definition gpu_card_of :: "'a gpu_record_scheme \<Rightarrow> gpu_card" where
  "gpu_card_of gpu =
     \<lparr> gv_id = gpu_id gpu,
       gv_name = gpu_name gpu,
       gv_memory_used = of_numfield (memory_used gpu),
       gv_memory_total = of_numfield (memory_total gpu),
       gv_value = gpu_usage gpu,
       gv_color = getProgressColor (gpu_usage gpu),
       gv_temperature = temperature gpu,
       gv_power_usage = power_usage gpu,
       gv_user = js_or (gpu_user gpu) (Str ''No user'') \<rparr>"

text \<open>A GPU object that also carries a \<^verbatim>\<open>usage_percent\<close> key.\<close>

record gpu_record_with_percent = gpu_record +
  usage_percent :: numfield

subsection \<open>The table of users\<close>

record user_row =
  uv_username :: jsval
  uv_cpu_value :: jsnum
  uv_cpu_color :: string
  uv_cpu_text :: jsval
  uv_memory_value :: jsnum
  uv_memory_color :: string
  uv_memory_text :: jsval
  uv_gpu_memory :: string
  uv_storage :: string
  uv_sessions :: "(jsval \<times> string) list"

text \<open>
  The GPU memory cell: \<^verbatim>\<open>user.gpu_memory_usage > 0 ? `${(user.gpu_memory_usage /
  1024).toFixed(1)}G` : 'None'\<close>.
\<close>

definition gpu_memory_cell :: "(rat \<Rightarrow> string) \<Rightarrow> numfield \<Rightarrow> string" where
  "gpu_memory_cell big v =
     (if js_lt (Fin 0) (ToNumber v)
      then toFixed big 1 (js_div (ToNumber v) (Fin 1024)) @ ''G''
      else ''None'')"

text \<open>
  The storage cell: \<^verbatim>\<open>user.storage_usage > 0 ? user.storage_usage > 1 ?
  `${user.storage_usage.toFixed(1)}G` : `${(user.storage_usage * 1024).toFixed(0)}MB` : 'N/A'\<close>.
\<close>

definition storage_cell :: "(rat \<Rightarrow> string) \<Rightarrow> numfield \<Rightarrow> string" where
  "storage_cell big v =
     (if js_lt (Fin 0) (ToNumber v)
      then (if js_lt (Fin 1) (ToNumber v)
            then toFixed big 1 (ToNumber v) @ ''G''
            else toFixed big 0 (js_mul (ToNumber v) (Fin 1024)) @ ''MB'')
      else ''N/A'')"

text \<open>
  A session line: the terminal and \<^verbatim>\<open>session.from !== 'N/A' ? `(${session.from})` : ''\<close>;
  an absent origin differs from \<^verbatim>\<open>'N/A'\<close> and prints as \<^verbatim>\<open>undefined\<close>.
\<close>

definition session_line :: "user_session \<Rightarrow> jsval \<times> string" where
  "session_line s =
     (terminal s,
      (case session_from s of
         None \<Rightarrow> ''(undefined)''
       | Some f \<Rightarrow> (if f \<noteq> ''N/A'' then ''('' @ f @ '')'' else [])))"

definition user_row_of :: "(rat \<Rightarrow> string) \<Rightarrow> user_resource \<Rightarrow> js_error + user_row" where
  "user_row_of big user =
     (case sessions user of
        None \<Rightarrow> Inl TypeError
      | Some ss \<Rightarrow>
          Inr \<lparr> uv_username = username user,
                uv_cpu_value = js_min (ToNumber (cpu_usage user)) (Fin 100),
                uv_cpu_color = getProgressColor (ToNumber (cpu_usage user)),
                uv_cpu_text = of_numfield (cpu_usage user),
                uv_memory_value = js_min (ToNumber (memory_usage user)) (Fin 100),
                uv_memory_color = getProgressColor (ToNumber (memory_usage user)),
                uv_memory_text = of_numfield (memory_usage user),
                uv_gpu_memory = gpu_memory_cell big (gpu_memory_usage user),
                uv_storage = storage_cell big (storage_usage user),
                uv_sessions = map session_line ss \<rparr>)"

datatype users_view = NoActiveUsers | UsersTable "user_row list"

text \<open>\<^verbatim>\<open>user_resources && user_resources.length > 0 ? <Table ...> : <Typography ...>\<close>.\<close>

definition users_view_of :: "(rat \<Rightarrow> string) \<Rightarrow> user_resource list option \<Rightarrow> js_error + users_view" where
  "users_view_of big us =
     (case us of
        None \<Rightarrow> Inr NoActiveUsers
      | Some rows \<Rightarrow>
          (if 0 < length rows
           then (case map_throw (user_row_of big) rows of
                   Inl e \<Rightarrow> Inl e
                 | Inr rs \<Rightarrow> Inr (UsersTable rs))
           else Inr NoActiveUsers))"

subsection \<open>The component\<close>

record dashboard =
  d_last_updated :: nat
  d_cpu :: gauge_card
  d_memory :: gauge_card
  d_disk :: gauge_card
  d_storage :: "storage_section option"
  d_gpus :: "gpu_card list"
  d_users :: users_view

datatype view = LoadingView | ErrorView string | Dashboard dashboard

text \<open>
  The part of \<^verbatim>\<open>App\<close> after the two early returns. \<^verbatim>\<open>system_resources.cpu\<close> and
  \<^verbatim>\<open>gpus.map\<close> are plain property reads: they throw when \<^verbatim>\<open>system_resources\<close> or
  \<^verbatim>\<open>gpus\<close> is absent.
\<close>

definition render_dashboard :: "(rat \<Rightarrow> string) \<Rightarrow> app_state \<Rightarrow> js_error + view" where
  "render_dashboard big st =
     (case system_resources (gpuData st) of
        None \<Rightarrow> Inl TypeError
      | Some sr \<Rightarrow>
          (case storage_section_of sr of
             Inl e \<Rightarrow> Inl e
           | Inr storage \<Rightarrow>
               (case gpus (gpuData st) of
                  None \<Rightarrow> Inl TypeError
                | Some gs \<Rightarrow>
                    (case users_view_of big (user_resources (gpuData st)) of
                       Inl e \<Rightarrow> Inl e
                     | Inr users \<Rightarrow>
                         Inr (Dashboard
                           \<lparr> d_last_updated = lastUpdated st,
                             d_cpu = cpu_card big (sr_cpu sr),
                             d_memory = memory_card big (sr_memory sr),
                             d_disk = disk_card (sr_disk sr),
                             d_storage = storage,
                             d_gpus = map gpu_card_of gs,
                             d_users = users \<rparr>)))))"

text \<open>
  \<^verbatim>\<open>App\<close>: the spinner while loading, the error page while an error message is stored
  (\<^verbatim>\<open>if (error)\<close>: a non-empty string), the dashboard otherwise.
\<close>

definition App :: "(rat \<Rightarrow> string) \<Rightarrow> app_state \<Rightarrow> js_error + view" where
  "App big st =
     (if loading st then Inr LoadingView
      else (case error st of
              Some msg \<Rightarrow> (if msg \<noteq> [] then Inr (ErrorView msg) else render_dashboard big st)
            | None \<Rightarrow> render_dashboard big st))"

section \<open>The collector behind the API\<close>

text \<open>
  The collector (\<^verbatim>\<open>main.py\<close>) is not among the sources. What follows is written from the
  specification's sections 3, 4.2, 4.3, 4.4, 5, 6 and 7; the parsed records are those of the JSON
  document above.
\<close>

text \<open>
  Modelled from the spec: the metrics of a cycle, one per command family of section 4.2
  (the collector's command list is not among the sources).
\<close>

datatype metric =
  GpuMetric | CpuMetric | MemoryMetric | DiskMetric | PartitionsMetric | UsersMetric

text \<open>
  Modelled from the spec: the error taxonomy of sections 4.1 and 7 and the failure
  descriptor of section 3 (the collector's error types are not among the sources).
\<close>

datatype collect_error = ConnectionError | CommandTimeout | NonZeroExit | ParseError

record failure =
  failed_metric :: metric
  failure_error :: collect_error

text \<open>
  Modelled from the spec: the result of running and parsing each command family of one
  cycle (Command Runner and Metric Parsers, not among the sources): an error, or the
  parsed record.
\<close>

record command_outcomes =
  gpu_outcome :: "collect_error + gpu_record list"
  cpu_outcome :: "collect_error + cpu_info"
  memory_outcome :: "collect_error + memory_info"
  disk_outcome :: "collect_error + disk_info"
  partitions_outcome :: "collect_error + storage_disk list \<times> storage_summary_info"
  users_outcome :: "collect_error + user_resource list"

text \<open>
  Modelled from the spec: the Snapshot of section 3 (the collector's data structure is not
  among the sources).
\<close>

record snapshot =
  snap_gpus :: "gpu_record list"
  snap_users :: "user_resource list"
  snap_system :: system_resources_info
  snap_timestamp :: nat
  snap_failures :: "failure list"

text \<open>
  Modelled from the spec: the failure descriptor recorded for a failed metric, and the
  fields a metric leaves absent or populated (section 4.3, not among the sources).
\<close>

fun failure_of :: "metric \<Rightarrow> collect_error + 'a \<Rightarrow> failure list" where
  "failure_of m (Inl e) = [\<lparr> failed_metric = m, failure_error = e \<rparr>]"
| "failure_of m (Inr _) = []"

fun parsed :: "collect_error + 'a \<Rightarrow> 'a option" where
  "parsed (Inl _) = None"
| "parsed (Inr x) = Some x"

fun parsed_list :: "collect_error + 'a list \<Rightarrow> 'a list" where
  "parsed_list (Inl _) = []"
| "parsed_list (Inr xs) = xs"

text \<open>
  Modelled from the spec: \<^verbatim>\<open>Aggregator.collect()\<close> (section 4.3), which is not among the
  sources. A failed metric is recorded in the failure list and its fields are left absent,
  the other metrics are assembled as parsed; when the session itself cannot be established
  (\<open>reachable\<close> is false) every metric is marked failed with the same connection error.
\<close>

definition collect :: "bool \<Rightarrow> nat \<Rightarrow> command_outcomes \<Rightarrow> snapshot" where
  "collect reachable now out =
     (if \<not> reachable
      then \<lparr> snap_gpus = [], snap_users = [],
             snap_system = \<lparr> sr_cpu = None, sr_memory = None, sr_disk = None,
                             sr_storage_disks = None, sr_storage_summary = None \<rparr>,
             snap_timestamp = now,
             snap_failures =
               map (\<lambda>m. \<lparr> failed_metric = m, failure_error = ConnectionError \<rparr>)
                 [GpuMetric, CpuMetric, MemoryMetric, DiskMetric, PartitionsMetric, UsersMetric] \<rparr>
      else \<lparr> snap_gpus = parsed_list (gpu_outcome out),
             snap_users = parsed_list (users_outcome out),
             snap_system =
               \<lparr> sr_cpu = parsed (cpu_outcome out),
                 sr_memory = parsed (memory_outcome out),
                 sr_disk = parsed (disk_outcome out),
                 sr_storage_disks = map_option fst (parsed (partitions_outcome out)),
                 sr_storage_summary = map_option snd (parsed (partitions_outcome out)) \<rparr>,
             snap_timestamp = now,
             snap_failures =
               failure_of GpuMetric (gpu_outcome out) @
               failure_of CpuMetric (cpu_outcome out) @
               failure_of MemoryMetric (memory_outcome out) @
               failure_of DiskMetric (disk_outcome out) @
               failure_of PartitionsMetric (partitions_outcome out) @
               failure_of UsersMetric (users_outcome out) \<rparr>)"

text \<open>
  Modelled from the spec: the state of the Refresh Cache (section 4.4, not among the
  sources): the last published Snapshot with its capture time,
  absent on the first run, and the status field that exposes the last session-level
  failure.
\<close>

record refresh_cache =
  cached :: "(snapshot \<times> nat) option"
  cache_lastError :: "collect_error option"

text \<open>Modelled from the spec: what a caller receives (section 6, not among the sources): \<^verbatim>\<open>{snapshot, isStale, lastError}\<close>.\<close>

record served =
  served_snapshot :: "snapshot option"
  isStale :: bool
  lastError :: "collect_error option"

text \<open>
  Modelled from the spec: how the Refresh Cache recognises a collection that failed at the
  session level (sections 4.3 and 7; the cache is not among the sources): the Aggregator
  returns a Snapshot in which every metric is marked failed with the connection error.
\<close>

definition all_metrics :: "metric list" where
  "all_metrics = [GpuMetric, CpuMetric, MemoryMetric, DiskMetric, PartitionsMetric, UsersMetric]"

definition session_failed :: "snapshot \<Rightarrow> bool" where
  "session_failed s =
     list_all
       (\<lambda>m. list_ex (\<lambda>f. failed_metric f = m \<and> failure_error f = ConnectionError)
              (snap_failures s))
       all_metrics"

text \<open>
  Modelled from the spec: the end of a refresh of the Refresh Cache (section 4.4), which is
  not among the sources. \<open>s\<close> is the Snapshot that \<^verbatim>\<open>Aggregator.collect()\<close> returned. A
  collection that failed at the session level keeps the cached Snapshot, marks what is
  served as stale and stores the error in the status field; any other Snapshot replaces
  the cached one.
\<close>

definition refresh :: "nat \<Rightarrow> snapshot \<Rightarrow> refresh_cache \<Rightarrow> served \<times> refresh_cache" where
  "refresh now s c =
     (if session_failed s
      then (\<lparr> served_snapshot = map_option fst (cached c), isStale = True,
               lastError = Some ConnectionError \<rparr>,
            c\<lparr> cache_lastError := Some ConnectionError \<rparr>)
      else (\<lparr> served_snapshot = Some s, isStale = False, lastError = None \<rparr>,
            \<lparr> cached = Some (s, now), cache_lastError = None \<rparr>))"

text \<open>
  Modelled from the spec: whether a read of the Refresh Cache finds no Snapshot or one
  older than \<open>maxAge\<close> (section 4.4, not among the sources), and what a read within
  \<open>maxAge\<close> returns.
\<close>

definition expired :: "nat \<Rightarrow> nat \<Rightarrow> refresh_cache \<Rightarrow> bool" where
  "expired maxAge now c =
     (case cached c of None \<Rightarrow> True | Some (s, t) \<Rightarrow> \<not> now - t \<le> maxAge)"

definition serve_cached :: "refresh_cache \<Rightarrow> served" where
  "serve_cached c =
     \<lparr> served_snapshot = map_option fst (cached c), isStale = False,
       lastError = cache_lastError c \<rparr>"

text \<open>
  Modelled from the spec: \<^verbatim>\<open>getCurrent(maxAge)\<close> of the Refresh Cache (section 4.4),
  which is not among the sources, for a single caller. A cached Snapshot whose age is
  within \<open>maxAge\<close> is returned at once; otherwise \<^verbatim>\<open>Aggregator.collect()\<close> runs once, on a
  session that is \<open>reachable\<close> or not and with the command outcomes \<open>out\<close>.
\<close>

definition getCurrent ::
  "nat \<Rightarrow> nat \<Rightarrow> bool \<Rightarrow> command_outcomes \<Rightarrow> refresh_cache \<Rightarrow> served \<times> refresh_cache" where
  "getCurrent maxAge now reachable out c =
     (if expired maxAge now c then refresh now (collect reachable now out) c
      else (serve_cached c, c))"

text \<open>Modelled from the spec: \<^verbatim>\<open>forceRefresh()\<close> (section 4.4, not among the sources) always collects.\<close>

definition forceRefresh ::
  "nat \<Rightarrow> bool \<Rightarrow> command_outcomes \<Rightarrow> refresh_cache \<Rightarrow> served \<times> refresh_cache" where
  "forceRefresh now reachable out c = refresh now (collect reachable now out) c"

subsection \<open>The cache as a state machine\<close>

text \<open>
  Modelled from the spec: the state machine \<open>Idle -> Refreshing -> Idle\<close> of the Refresh
  Cache (sections 4.4 and 5, not among the sources). Concurrent calls are interleaved as
  events: a call arrives, or the collection in flight completes. The machine holds the
  cache, the callers that await the collection in flight, the number of
  \<^verbatim>\<open>Aggregator.collect()\<close> invocations so far and what each caller has received.
\<close>

datatype phase = Idle | Refreshing

record cache_machine =
  phase :: phase
  store :: refresh_cache
  waiting :: "nat list"
  collects :: nat
  answers :: "(nat \<times> served) list"

text \<open>
  Modelled from the spec: the events of the Refresh Cache (sections 4.4 and 5, not among
  the sources): caller \<open>k\<close> calls \<^verbatim>\<open>getCurrent(maxAge)\<close> at time \<open>now\<close>, caller \<open>k\<close> calls
  \<^verbatim>\<open>forceRefresh()\<close>, or the collection in flight returns at time \<open>now\<close>.
\<close>

datatype cache_event =
  GetCurrent nat nat nat
| ForceRefresh nat
| CollectDone nat bool command_outcomes

text \<open>
  Modelled from the spec: the start of a collection (section 4.4, not among the sources):
  the only transition that invokes \<^verbatim>\<open>Aggregator.collect()\<close>.
\<close>

definition start_collect :: "nat \<Rightarrow> cache_machine \<Rightarrow> cache_machine" where
  "start_collect k m = m\<lparr> phase := Refreshing, collects := collects m + 1, waiting := [k] \<rparr>"

text \<open>
  Modelled from the spec: one transition of the Refresh Cache (sections 4.4 and 5, not
  among the sources). While \<open>Refreshing\<close> a caller blocks on the collection in flight
  rather than starting a second one; when the collection returns, every waiting caller
  receives its result and the machine is \<open>Idle\<close> again.
\<close>

fun cache_step :: "cache_event \<Rightarrow> cache_machine \<Rightarrow> cache_machine" where
  "cache_step (GetCurrent k maxAge now) m =
     (case phase m of
        Refreshing \<Rightarrow> m\<lparr> waiting := waiting m @ [k] \<rparr>
      | Idle \<Rightarrow>
          (if expired maxAge now (store m) then start_collect k m
           else m\<lparr> answers := answers m @ [(k, serve_cached (store m))] \<rparr>))"
| "cache_step (ForceRefresh k) m =
     (case phase m of
        Refreshing \<Rightarrow> m\<lparr> waiting := waiting m @ [k] \<rparr>
      | Idle \<Rightarrow> start_collect k m)"
| "cache_step (CollectDone now reachable out) m =
     (case phase m of
        Idle \<Rightarrow> m
      | Refreshing \<Rightarrow>
          (let r = refresh now (collect reachable now out) (store m)
           in m\<lparr> phase := Idle, store := snd r,
                 answers := answers m @ map (\<lambda>k. (k, fst r)) (waiting m),
                 waiting := [] \<rparr>))"

text \<open>Modelled from the spec: a sequence of events, in the order they take effect.\<close>

fun run_events :: "cache_event list \<Rightarrow> cache_machine \<Rightarrow> cache_machine" where
  "run_events [] m = m"
| "run_events (e # es) m = run_events es (cache_step e m)"

text \<open>
  Modelled from the spec: the \<^verbatim>\<open>getCurrent\<close> calls of a list of callers, each with its
  \<open>maxAge\<close> and the time of the call.
\<close>

definition calls :: "(nat \<times> nat \<times> nat) list \<Rightarrow> cache_event list" where
  "calls cs = map (\<lambda>(k, maxAge, now). GetCurrent k maxAge now) cs"

section \<open>Properties of the data fetch\<close>

text \<open>
  C7: the only timer the component registers drives \<^verbatim>\<open>fetchData\<close> every 5000 milliseconds,
  that is every 5 seconds.
\<close>

theorem poll_interval_is_5_seconds:
  "concat (map interval_of useEffect_mount) = [5 * 1000] \<and>
   useEffect_mount ! 0 = Call_fetchData"
  by (simp add: useEffect_mount_def)

text \<open>
  C8: when the request fails, \<^verbatim>\<open>fetchData\<close> changes the error message and the loading
  flag only: the stored document and the time of the last update are those of the state
  before the call. This holds for both revisions of the component.
\<close>

theorem fetchData_failure_frame:
  "gpuData (fetchData env now Rejected st) = gpuData st \<and>
   lastUpdated (fetchData env now Rejected st) = lastUpdated st \<and>
   fetchData env now Rejected st
     = st\<lparr> error := error (fetchData env now Rejected st),
           loading := loading (fetchData env now Rejected st) \<rparr> \<and>
   error (fetchData env now Rejected st) = Some (connect_message env) \<and>
   loading (fetchData env now Rejected st) = False \<and>
   gpuData (fetchData_part_000 now Rejected st) = gpuData st \<and>
   lastUpdated (fetchData_part_000 now Rejected st) = lastUpdated st \<and>
   fetchData_part_000 now Rejected st
     = st\<lparr> error := error (fetchData_part_000 now Rejected st),
           loading := loading (fetchData_part_000 now Rejected st) \<rparr>"
  by (simp add: fetchData_def fetchData_part_000_def)

section \<open>Properties of the GPU usage bar\<close>

lemma finite_result_in_range: "\<bar>r\<bar> < double_overflow \<Longrightarrow> finite_result r = Fin r"
  by (simp add: finite_result_def)


lemma double_overflow_gt_1024: "1024 < double_overflow"
proof -
  have "(2::rat) ^ 970 * 2 \<le> 2 ^ 970 * 2 ^ 54" by (intro mult_left_mono) simp_all
  then have a: "(2::rat) ^ 970 * 2 \<le> 2 ^ 1024" by (simp flip: power_add)
  have "(2::rat) ^ 11 \<le> 2 ^ 970" by (rule power_increasing) simp_all
  then have b: "(2048::rat) \<le> 2 ^ 970" by simp
  from a b show ?thesis by (simp add: double_overflow_def)
qed












section \<open>Properties of the renderer\<close>

lemma connect_message_nonempty: "connect_message env \<noteq> []"
  by (simp add: connect_message_def)

lemma App_after_failure:
  "App big (fetchData env now Rejected st) = Inr (ErrorView (connect_message env))"
  by (simp add: App_def fetchData_def connect_message_nonempty)

lemma cpu_card_None:
  "cpu_card big None = \<lparr> gc_value = Fin 0, gc_color = ''#4caf50'',
    gc_percent = Num (Fin 0), gc_line = [Str ''N/A''] \<rparr>"
  by (simp add: cpu_card_def opt_num_def opt_val_def opt_toFixed_def num_or_def js_or_def
        getProgressColor_def)

lemma memory_card_None:
  "memory_card big None = \<lparr> gc_value = Fin 0, gc_color = ''#4caf50'',
    gc_percent = Num (Fin 0), gc_line = [Num (Fin 0), Num (Fin 0)] \<rparr>"
  by (simp add: memory_card_def opt_num_def opt_val_def opt_toFixed_def num_or_def js_or_def
        getProgressColor_def)

lemma disk_card_None:
  "disk_card None = \<lparr> gc_value = Fin 0, gc_color = ''#4caf50'',
    gc_percent = Num (Fin 0), gc_line = [Str ''N/A'', Str ''N/A''] \<rparr>"
  by (simp add: disk_card_def opt_num_def opt_val_def num_or_def js_or_def
        getProgressColor_def)

lemma storage_summary_card_None:
  "storage_summary_card None = \<lparr> sc_used = Str ''0G'', sc_total = Str ''0G'',
    sc_value = Fin 0, sc_color = ''#4caf50'', sc_available = Str ''0G'' \<rparr>"
  by (simp add: storage_summary_card_def opt_num_def opt_val_def num_or_def js_or_def
        getProgressColor_def)

lemma storage_section_of_frame:
  "storage_section_of (sr\<lparr> sr_cpu := c \<rparr>) = storage_section_of sr"
  "storage_section_of (sr\<lparr> sr_memory := m \<rparr>) = storage_section_of sr"
  "storage_section_of (sr\<lparr> sr_disk := d \<rparr>) = storage_section_of sr"
  by (simp_all add: storage_section_of_def split: option.splits sum.splits)

lemma storage_section_of_no_disks:
  "storage_section_of (sr\<lparr> sr_storage_disks := None \<rparr>) = Inr None"
  by (simp add: storage_section_of_def)

lemma storage_section_of_no_summary:
  "storage_section_of sr = Inr x \<Longrightarrow>
   storage_section_of (sr\<lparr> sr_storage_summary := None \<rparr>)
     = Inr (map_option (\<lambda>s. s\<lparr> ss_summary := storage_summary_card None \<rparr>) x)"
  by (auto simp: storage_section_of_def split: option.splits sum.splits if_splits)

lemma users_view_of_absent:
  "users_view_of big None = Inr NoActiveUsers" "users_view_of big (Some []) = Inr NoActiveUsers"
  by (simp_all add: users_view_of_def)

lemma App_Dashboard_iff:
  "App big st = Inr (Dashboard d) \<longleftrightarrow>
     \<not> loading st \<and> (error st = None \<or> error st = Some []) \<and>
     render_dashboard big st = Inr (Dashboard d)"
  by (auto simp: App_def render_dashboard_def split: option.splits sum.splits)

lemma App_TypeError_iff:
  "App big st = Inl TypeError \<longleftrightarrow>
     \<not> loading st \<and> (error st = None \<or> error st = Some []) \<and>
     render_dashboard big st = Inl TypeError"
  by (auto simp: App_def split: option.splits)

lemma render_dashboard_Inr:
  "render_dashboard big st = Inr (Dashboard d) \<longleftrightarrow>
     (\<exists>sr storage gs users.
        system_resources (gpuData st) = Some sr \<and> storage_section_of sr = Inr storage \<and>
        gpus (gpuData st) = Some gs \<and>
        users_view_of big (user_resources (gpuData st)) = Inr users \<and>
        d = \<lparr> d_last_updated = lastUpdated st, d_cpu = cpu_card big (sr_cpu sr),
              d_memory = memory_card big (sr_memory sr), d_disk = disk_card (sr_disk sr),
              d_storage = storage, d_gpus = map gpu_card_of gs, d_users = users \<rparr>)"
  by (auto simp: render_dashboard_def split: option.splits sum.splits)

text \<open>
  C3, as the code has it: while the dashboard is shown, a metric that is missing from the
  document changes its own part of the dashboard and nothing else. Without the CPU, the
  memory or the disk record that card shows its placeholder (0 percent and \<^verbatim>\<open>N/A\<close>
  cores; 0 percent and 0 / 0; 0 percent and \<^verbatim>\<open>N/A / N/A\<close>); without the storage summary
  the summary shows \<^verbatim>\<open>0G\<close> throughout; without the storage disks the storage section is
  left out; without the user records, or with none, the table gives way to the line that
  no user is active; with an empty GPU list no GPU card is shown. Two cases replace the
  whole display: without the \<^verbatim>\<open>gpus\<close> key the render throws, and after a failed fetch
  the component returns the error page alone, whatever data it holds.
\<close>

theorem missing_metric_placeholder:
  assumes "App big st = Inr (Dashboard d)"
    and "system_resources (gpuData st) = Some sr"
  shows "App big (st\<lparr> gpuData := (gpuData st)\<lparr> system_resources := Some (sr\<lparr> sr_cpu := None \<rparr>) \<rparr> \<rparr>)
           = Inr (Dashboard (d\<lparr> d_cpu := \<lparr> gc_value = Fin 0,
             gc_color = ''#4caf50'', gc_percent = Num (Fin 0),
             gc_line = [Str ''N/A''] \<rparr> \<rparr>)) \<and>
         App big (st\<lparr> gpuData := (gpuData st)\<lparr> system_resources := Some (sr\<lparr> sr_memory := None \<rparr>) \<rparr> \<rparr>)
           = Inr (Dashboard (d\<lparr> d_memory := \<lparr> gc_value = Fin 0,
             gc_color = ''#4caf50'', gc_percent = Num (Fin 0), gc_line = [Num (Fin 0),
             Num (Fin 0)] \<rparr> \<rparr>)) \<and>
         App big (st\<lparr> gpuData := (gpuData st)\<lparr> system_resources := Some (sr\<lparr> sr_disk := None \<rparr>) \<rparr> \<rparr>)
           = Inr (Dashboard (d\<lparr> d_disk := \<lparr> gc_value = Fin 0,
             gc_color = ''#4caf50'', gc_percent = Num (Fin 0), gc_line = [Str ''N/A'',
             Str ''N/A''] \<rparr> \<rparr>)) \<and>
         App big (st\<lparr> gpuData := (gpuData st)\<lparr> system_resources := Some (sr\<lparr> sr_storage_summary := None \<rparr>) \<rparr> \<rparr>)
           = Inr (Dashboard (d\<lparr> d_storage :=
               map_option (\<lambda>s. s\<lparr> ss_summary := \<lparr> sc_used = Str ''0G'',
                 sc_total = Str ''0G'', sc_value = Fin 0, sc_color = ''#4caf50'',
                 sc_available = Str ''0G'' \<rparr> \<rparr>) (d_storage d) \<rparr>)) \<and>
         App big (st\<lparr> gpuData := (gpuData st)\<lparr> system_resources := Some (sr\<lparr> sr_storage_disks := None \<rparr>) \<rparr> \<rparr>)
           = Inr (Dashboard (d\<lparr> d_storage := None \<rparr>)) \<and>
         App big (st\<lparr> gpuData := (gpuData st)\<lparr> user_resources := None \<rparr> \<rparr>)
           = Inr (Dashboard (d\<lparr> d_users := NoActiveUsers \<rparr>)) \<and>
         App big (st\<lparr> gpuData := (gpuData st)\<lparr> user_resources := Some [] \<rparr> \<rparr>)
           = Inr (Dashboard (d\<lparr> d_users := NoActiveUsers \<rparr>)) \<and>
         App big (st\<lparr> gpuData := (gpuData st)\<lparr> gpus := Some [] \<rparr> \<rparr>)
           = Inr (Dashboard (d\<lparr> d_gpus := [] \<rparr>)) \<and>
         App big (st\<lparr> gpuData := (gpuData st)\<lparr> gpus := None \<rparr> \<rparr>) = Inl TypeError \<and>
         App big (fetchData env now Rejected st) = Inr (ErrorView (connect_message env))"
proof -
  from assms(1) have flags: "\<not> loading st" "error st = None \<or> error st = Some []"
    and rd: "render_dashboard big st = Inr (Dashboard d)"
    by (simp_all add: App_Dashboard_iff)
  from rd assms(2) obtain storage gs users where
    parts: "storage_section_of sr = Inr storage" "gpus (gpuData st) = Some gs"
      "users_view_of big (user_resources (gpuData st)) = Inr users"
    and d: "d = \<lparr> d_last_updated = lastUpdated st, d_cpu = cpu_card big (sr_cpu sr),
              d_memory = memory_card big (sr_memory sr), d_disk = disk_card (sr_disk sr),
              d_storage = storage, d_gpus = map gpu_card_of gs, d_users = users \<rparr>"
    by (auto simp: render_dashboard_Inr)
  have cpu: "App big (st\<lparr> gpuData := (gpuData st)\<lparr> system_resources := Some (sr\<lparr> sr_cpu := None \<rparr>) \<rparr> \<rparr>)
           = Inr (Dashboard (d\<lparr> d_cpu := \<lparr> gc_value = Fin 0,
             gc_color = ''#4caf50'', gc_percent = Num (Fin 0),
             gc_line = [Str ''N/A''] \<rparr> \<rparr>))"
    using flags parts
    by (auto simp: App_Dashboard_iff render_dashboard_Inr storage_section_of_frame d cpu_card_None)
  have mem: "App big (st\<lparr> gpuData := (gpuData st)\<lparr> system_resources := Some (sr\<lparr> sr_memory := None \<rparr>) \<rparr> \<rparr>)
           = Inr (Dashboard (d\<lparr> d_memory := \<lparr> gc_value = Fin 0,
             gc_color = ''#4caf50'', gc_percent = Num (Fin 0), gc_line = [Num (Fin 0),
             Num (Fin 0)] \<rparr> \<rparr>))"
    using flags parts
    by (auto simp: App_Dashboard_iff render_dashboard_Inr storage_section_of_frame d memory_card_None)
  have disk: "App big (st\<lparr> gpuData := (gpuData st)\<lparr> system_resources := Some (sr\<lparr> sr_disk := None \<rparr>) \<rparr> \<rparr>)
           = Inr (Dashboard (d\<lparr> d_disk := \<lparr> gc_value = Fin 0,
             gc_color = ''#4caf50'', gc_percent = Num (Fin 0), gc_line = [Str ''N/A'',
             Str ''N/A''] \<rparr> \<rparr>))"
    using flags parts
    by (auto simp: App_Dashboard_iff render_dashboard_Inr storage_section_of_frame d disk_card_None)
  have summ: "App big (st\<lparr> gpuData := (gpuData st)\<lparr> system_resources := Some (sr\<lparr> sr_storage_summary := None \<rparr>) \<rparr> \<rparr>)
           = Inr (Dashboard (d\<lparr> d_storage :=
               map_option (\<lambda>s. s\<lparr> ss_summary := \<lparr> sc_used = Str ''0G'',
                 sc_total = Str ''0G'', sc_value = Fin 0, sc_color = ''#4caf50'',
                 sc_available = Str ''0G'' \<rparr> \<rparr>) (d_storage d) \<rparr>))"
    using flags parts storage_section_of_no_summary [OF parts(1)]
    by (auto simp: App_Dashboard_iff render_dashboard_Inr d storage_summary_card_None)
  have nodisks: "App big (st\<lparr> gpuData := (gpuData st)\<lparr> system_resources := Some (sr\<lparr> sr_storage_disks := None \<rparr>) \<rparr> \<rparr>)
           = Inr (Dashboard (d\<lparr> d_storage := None \<rparr>))"
    using flags parts
    by (auto simp: App_Dashboard_iff render_dashboard_Inr storage_section_of_no_disks d)
  have nousers: "App big (st\<lparr> gpuData := (gpuData st)\<lparr> user_resources := None \<rparr> \<rparr>)
           = Inr (Dashboard (d\<lparr> d_users := NoActiveUsers \<rparr>))"
    "App big (st\<lparr> gpuData := (gpuData st)\<lparr> user_resources := Some [] \<rparr> \<rparr>)
           = Inr (Dashboard (d\<lparr> d_users := NoActiveUsers \<rparr>))"
    using flags parts assms(2)
    by (auto simp: App_Dashboard_iff render_dashboard_Inr users_view_of_absent d)
  have nogpus: "App big (st\<lparr> gpuData := (gpuData st)\<lparr> gpus := Some [] \<rparr> \<rparr>)
           = Inr (Dashboard (d\<lparr> d_gpus := [] \<rparr>))"
    using flags parts assms(2)
    by (auto simp: App_Dashboard_iff render_dashboard_Inr d)
  have crash: "App big (st\<lparr> gpuData := (gpuData st)\<lparr> gpus := None \<rparr> \<rparr>) = Inl TypeError"
    using flags parts assms(2)
    by (auto simp: App_TypeError_iff render_dashboard_def)
  from cpu mem disk summ nodisks nousers nogpus crash App_after_failure show ?thesis
    by (intro conjI)
qed

text \<open>
  The theorem at a document with one GPU, one user, one storage disk and all three system
  records: without its CPU record only the CPU card turns into the placeholder, and
  without its user records only the table does.
\<close>

theorem missing_metric_placeholder_witness:
  "App (\<lambda>_. [])
     \<lparr> gpuData = \<lparr> gpus = Some [\<lparr> gpu_id = Num (Fin 0),
       gpu_name = Str ''Tesla T4'', memory_used = Some (Fin 1024),
       memory_total = Some (Fin 16384), temperature = Num (Fin 42), power_usage = Num (Fin 70),
       gpu_user = Str ''alice'' \<rparr>], active_users = Some [Str ''alice''],
       user_resources = Some [\<lparr> username = Str ''alice'', cpu_usage = Some (Fin 3),
       memory_usage = Some (Fin 4), gpu_memory_usage = Some (Fin 0),
       storage_usage = Some (Fin (1 / 2)), sessions = Some [\<lparr> terminal = Str ''pts/0'',
       session_from = Some ''10.0.0.5'' \<rparr>] \<rparr>],
       system_resources = Some \<lparr> sr_cpu = None,
       sr_memory = Some \<lparr> mem_usage_percent = Some (Fin 50), mem_used = Num (Fin 8192),
       mem_total = Num (Fin 16384) \<rparr>,
       sr_disk = Some \<lparr> disk_usage_percent = Some (Fin 40), disk_used = Str ''40G'',
       disk_total = Str ''100G'' \<rparr>,
       sr_storage_disks = Some [\<lparr> sd_mount_point = Some ''/mnt/data'',
       sd_used = Str ''1T'', sd_total = Str ''2T'', sd_available = Str ''1T'',
       sd_usage_percent = Some (Fin 50) \<rparr>],
       sr_storage_summary = Some \<lparr> sum_used = Str ''1T'', sum_total = Str ''2T'',
       sum_available = Str ''1T'',
       sum_usage_percent = Some (Fin 50) \<rparr> \<rparr> \<rparr>, loading = False,
       error = None, lastUpdated = 7 \<rparr>
   = Inr (Dashboard
       \<lparr> d_last_updated = 7, d_cpu = \<lparr> gc_value = Fin 0, gc_color = ''#4caf50'',
         gc_percent = Num (Fin 0), gc_line = [Str ''N/A''] \<rparr>,
         d_memory = \<lparr> gc_value = Fin 50, gc_color = ''#ff9800'',
         gc_percent = Str ''50.0'', gc_line = [Num (Fin 8192), Num (Fin 16384)] \<rparr>,
         d_disk = \<lparr> gc_value = Fin 40, gc_color = ''#4caf50'',
         gc_percent = Num (Fin 40), gc_line = [Str ''40G'', Str ''100G''] \<rparr>,
         d_storage = Some \<lparr> ss_summary = \<lparr> sc_used = Str ''1T'',
         sc_total = Str ''2T'', sc_value = Fin 50, sc_color = ''#ff9800'',
         sc_available = Str ''1T'' \<rparr>, ss_disks = [\<lparr> pc_title = ''data'',
         pc_used = Str ''1T'', pc_total = Str ''2T'', pc_value = Num (Fin 50),
         pc_color = ''#ff9800'', pc_available = Str ''1T'' \<rparr>] \<rparr>,
         d_gpus = [\<lparr> gv_id = Num (Fin 0), gv_name = Str ''Tesla T4'',
         gv_memory_used = Num (Fin 1024), gv_memory_total = Num (Fin 16384),
         gv_value = Fin (25 / 4), gv_color = ''#4caf50'', gv_temperature = Num (Fin 42),
         gv_power_usage = Num (Fin 70), gv_user = Str ''alice'' \<rparr>],
         d_users = UsersTable [\<lparr> uv_username = Str ''alice'', uv_cpu_value = Fin 3,
         uv_cpu_color = ''#4caf50'', uv_cpu_text = Num (Fin 3), uv_memory_value = Fin 4,
         uv_memory_color = ''#4caf50'', uv_memory_text = Num (Fin 4), uv_gpu_memory = ''None'',
         uv_storage = ''512MB'', uv_sessions = [(Str ''pts/0'',
         ''(10.0.0.5)'')] \<rparr>] \<rparr>) \<and>
   App (\<lambda>_. [])
     \<lparr> gpuData = \<lparr> gpus = Some [\<lparr> gpu_id = Num (Fin 0),
       gpu_name = Str ''Tesla T4'', memory_used = Some (Fin 1024),
       memory_total = Some (Fin 16384), temperature = Num (Fin 42), power_usage = Num (Fin 70),
       gpu_user = Str ''alice'' \<rparr>], active_users = Some [Str ''alice''],
       user_resources = None,
       system_resources = Some \<lparr> sr_cpu = Some \<lparr> cpu_usage_percent = Some (Fin 12),
       cpu_cores = Num (Fin 8) \<rparr>,
       sr_memory = Some \<lparr> mem_usage_percent = Some (Fin 50), mem_used = Num (Fin 8192),
       mem_total = Num (Fin 16384) \<rparr>,
       sr_disk = Some \<lparr> disk_usage_percent = Some (Fin 40), disk_used = Str ''40G'',
       disk_total = Str ''100G'' \<rparr>,
       sr_storage_disks = Some [\<lparr> sd_mount_point = Some ''/mnt/data'',
       sd_used = Str ''1T'', sd_total = Str ''2T'', sd_available = Str ''1T'',
       sd_usage_percent = Some (Fin 50) \<rparr>],
       sr_storage_summary = Some \<lparr> sum_used = Str ''1T'', sum_total = Str ''2T'',
       sum_available = Str ''1T'',
       sum_usage_percent = Some (Fin 50) \<rparr> \<rparr> \<rparr>, loading = False,
       error = None, lastUpdated = 7 \<rparr>
   = Inr (Dashboard
       \<lparr> d_last_updated = 7, d_cpu = \<lparr> gc_value = Fin 12, gc_color = ''#4caf50'',
         gc_percent = Str ''12.0'', gc_line = [Num (Fin 8)] \<rparr>,
         d_memory = \<lparr> gc_value = Fin 50, gc_color = ''#ff9800'',
         gc_percent = Str ''50.0'', gc_line = [Num (Fin 8192), Num (Fin 16384)] \<rparr>,
         d_disk = \<lparr> gc_value = Fin 40, gc_color = ''#4caf50'',
         gc_percent = Num (Fin 40), gc_line = [Str ''40G'', Str ''100G''] \<rparr>,
         d_storage = Some \<lparr> ss_summary = \<lparr> sc_used = Str ''1T'',
         sc_total = Str ''2T'', sc_value = Fin 50, sc_color = ''#ff9800'',
         sc_available = Str ''1T'' \<rparr>, ss_disks = [\<lparr> pc_title = ''data'',
         pc_used = Str ''1T'', pc_total = Str ''2T'', pc_value = Num (Fin 50),
         pc_color = ''#ff9800'', pc_available = Str ''1T'' \<rparr>] \<rparr>,
         d_gpus = [\<lparr> gv_id = Num (Fin 0), gv_name = Str ''Tesla T4'',
         gv_memory_used = Num (Fin 1024), gv_memory_total = Num (Fin 16384),
         gv_value = Fin (25 / 4), gv_color = ''#4caf50'', gv_temperature = Num (Fin 42),
         gv_power_usage = Num (Fin 70), gv_user = Str ''alice'' \<rparr>],
         d_users = NoActiveUsers \<rparr>)"
proof -
  let ?sr = "\<lparr> sr_cpu = Some \<lparr> cpu_usage_percent = Some (Fin 12),
    cpu_cores = Num (Fin 8) \<rparr>,
    sr_memory = Some \<lparr> mem_usage_percent = Some (Fin 50), mem_used = Num (Fin 8192),
    mem_total = Num (Fin 16384) \<rparr>,
    sr_disk = Some \<lparr> disk_usage_percent = Some (Fin 40), disk_used = Str ''40G'',
    disk_total = Str ''100G'' \<rparr>,
    sr_storage_disks = Some [\<lparr> sd_mount_point = Some ''/mnt/data'',
    sd_used = Str ''1T'', sd_total = Str ''2T'', sd_available = Str ''1T'',
    sd_usage_percent = Some (Fin 50) \<rparr>],
    sr_storage_summary = Some \<lparr> sum_used = Str ''1T'', sum_total = Str ''2T'',
    sum_available = Str ''1T'', sum_usage_percent = Some (Fin 50) \<rparr> \<rparr>"
  let ?st = "\<lparr> gpuData = \<lparr> gpus = Some [\<lparr> gpu_id = Num (Fin 0),
    gpu_name = Str ''Tesla T4'', memory_used = Some (Fin 1024),
    memory_total = Some (Fin 16384), temperature = Num (Fin 42), power_usage = Num (Fin 70),
    gpu_user = Str ''alice'' \<rparr>], active_users = Some [Str ''alice''],
    user_resources = Some [\<lparr> username = Str ''alice'', cpu_usage = Some (Fin 3),
    memory_usage = Some (Fin 4), gpu_memory_usage = Some (Fin 0),
    storage_usage = Some (Fin (1 / 2)), sessions = Some [\<lparr> terminal = Str ''pts/0'',
    session_from = Some ''10.0.0.5'' \<rparr>] \<rparr>],
    system_resources = Some \<lparr> sr_cpu = Some \<lparr> cpu_usage_percent = Some (Fin 12),
    cpu_cores = Num (Fin 8) \<rparr>,
    sr_memory = Some \<lparr> mem_usage_percent = Some (Fin 50), mem_used = Num (Fin 8192),
    mem_total = Num (Fin 16384) \<rparr>,
    sr_disk = Some \<lparr> disk_usage_percent = Some (Fin 40), disk_used = Str ''40G'',
    disk_total = Str ''100G'' \<rparr>,
    sr_storage_disks = Some [\<lparr> sd_mount_point = Some ''/mnt/data'',
    sd_used = Str ''1T'', sd_total = Str ''2T'', sd_available = Str ''1T'',
    sd_usage_percent = Some (Fin 50) \<rparr>],
    sr_storage_summary = Some \<lparr> sum_used = Str ''1T'', sum_total = Str ''2T'',
    sum_available = Str ''1T'', sum_usage_percent = Some (Fin 50) \<rparr> \<rparr> \<rparr>,
    loading = False, error = None, lastUpdated = 7 \<rparr>"
  let ?d = "\<lparr> d_last_updated = 7, d_cpu = \<lparr> gc_value = Fin 12,
    gc_color = ''#4caf50'', gc_percent = Str ''12.0'', gc_line = [Num (Fin 8)] \<rparr>,
    d_memory = \<lparr> gc_value = Fin 50, gc_color = ''#ff9800'', gc_percent = Str ''50.0'',
    gc_line = [Num (Fin 8192), Num (Fin 16384)] \<rparr>, d_disk = \<lparr> gc_value = Fin 40,
    gc_color = ''#4caf50'', gc_percent = Num (Fin 40), gc_line = [Str ''40G'',
    Str ''100G''] \<rparr>,
    d_storage = Some \<lparr> ss_summary = \<lparr> sc_used = Str ''1T'',
    sc_total = Str ''2T'', sc_value = Fin 50, sc_color = ''#ff9800'',
    sc_available = Str ''1T'' \<rparr>, ss_disks = [\<lparr> pc_title = ''data'',
    pc_used = Str ''1T'', pc_total = Str ''2T'', pc_value = Num (Fin 50),
    pc_color = ''#ff9800'', pc_available = Str ''1T'' \<rparr>] \<rparr>,
    d_gpus = [\<lparr> gv_id = Num (Fin 0), gv_name = Str ''Tesla T4'',
    gv_memory_used = Num (Fin 1024), gv_memory_total = Num (Fin 16384),
    gv_value = Fin (25 / 4), gv_color = ''#4caf50'', gv_temperature = Num (Fin 42),
    gv_power_usage = Num (Fin 70), gv_user = Str ''alice'' \<rparr>],
    d_users = UsersTable [\<lparr> uv_username = Str ''alice'', uv_cpu_value = Fin 3,
    uv_cpu_color = ''#4caf50'', uv_cpu_text = Num (Fin 3), uv_memory_value = Fin 4,
    uv_memory_color = ''#4caf50'', uv_memory_text = Num (Fin 4), uv_gpu_memory = ''None'',
    uv_storage = ''512MB'', uv_sessions = [(Str ''pts/0'', ''(10.0.0.5)'')] \<rparr>] \<rparr>"
  have f512: "toFixed (\<lambda>_. []) 0 (Fin 512) = ''512''" by code_simp
  have gpu: "gpu_card_of \<lparr> gpu_id = Num (Fin 0), gpu_name = Str ''Tesla T4'',
    memory_used = Some (Fin 1024), memory_total = Some (Fin 16384), temperature = Num (Fin 42),
    power_usage = Num (Fin 70), gpu_user = Str ''alice'' \<rparr>
      = \<lparr> gv_id = Num (Fin 0), gv_name = Str ''Tesla T4'',
        gv_memory_used = Num (Fin 1024), gv_memory_total = Num (Fin 16384),
        gv_value = Fin (25 / 4), gv_color = ''#4caf50'', gv_temperature = Num (Fin 42),
        gv_power_usage = Num (Fin 70), gv_user = Str ''alice'' \<rparr>"
    by (simp add: gpu_card_of_def gpu_usage_def finite_result_def double_overflow_def
          getProgressColor_def js_or_def)
  have user: "user_row_of (\<lambda>_. []) \<lparr> username = Str ''alice'',
    cpu_usage = Some (Fin 3), memory_usage = Some (Fin 4), gpu_memory_usage = Some (Fin 0),
    storage_usage = Some (Fin (1 / 2)), sessions = Some [\<lparr> terminal = Str ''pts/0'',
    session_from = Some ''10.0.0.5'' \<rparr>] \<rparr>
      = Inr \<lparr> uv_username = Str ''alice'', uv_cpu_value = Fin 3,
        uv_cpu_color = ''#4caf50'', uv_cpu_text = Num (Fin 3), uv_memory_value = Fin 4,
        uv_memory_color = ''#4caf50'', uv_memory_text = Num (Fin 4), uv_gpu_memory = ''None'',
        uv_storage = ''512MB'', uv_sessions = [(Str ''pts/0'', ''(10.0.0.5)'')] \<rparr>"
    using f512
    by (simp add: user_row_of_def storage_cell_def gpu_memory_cell_def finite_result_def
          double_overflow_def session_line_def getProgressColor_def)
  have storage: "storage_section_of ?sr
      = Inr (Some \<lparr> ss_summary = \<lparr> sc_used = Str ''1T'', sc_total = Str ''2T'',
        sc_value = Fin 50, sc_color = ''#ff9800'', sc_available = Str ''1T'' \<rparr>,
        ss_disks = [\<lparr> pc_title = ''data'', pc_used = Str ''1T'', pc_total = Str ''2T'',
        pc_value = Num (Fin 50), pc_color = ''#ff9800'',
        pc_available = Str ''1T'' \<rparr>] \<rparr>)"
    by code_simp
  have cpu: "cpu_card (\<lambda>_. []) (Some \<lparr> cpu_usage_percent = Some (Fin 12),
    cpu_cores = Num (Fin 8) \<rparr>)
      = \<lparr> gc_value = Fin 12, gc_color = ''#4caf50'', gc_percent = Str ''12.0'',
        gc_line = [Num (Fin 8)] \<rparr>"
    by code_simp
  have mem: "memory_card (\<lambda>_. []) (Some \<lparr> mem_usage_percent = Some (Fin 50),
    mem_used = Num (Fin 8192), mem_total = Num (Fin 16384) \<rparr>)
      = \<lparr> gc_value = Fin 50, gc_color = ''#ff9800'', gc_percent = Str ''50.0'',
        gc_line = [Num (Fin 8192), Num (Fin 16384)] \<rparr>"
    by code_simp
  have disk: "disk_card (Some \<lparr> disk_usage_percent = Some (Fin 40),
    disk_used = Str ''40G'', disk_total = Str ''100G'' \<rparr>)
      = \<lparr> gc_value = Fin 40, gc_color = ''#4caf50'', gc_percent = Num (Fin 40),
        gc_line = [Str ''40G'', Str ''100G''] \<rparr>"
    by code_simp
  have h1: "App (\<lambda>_. []) ?st = Inr (Dashboard ?d)"
    using gpu user storage cpu mem disk
    by (simp add: App_def render_dashboard_def users_view_of_def)
  have h2: "system_resources (gpuData ?st) = Some ?sr" by simp
  note inst = missing_metric_placeholder [OF h1 h2]
  from inst [THEN conjunct1]
  have a: "App (\<lambda>_. [])
     \<lparr> gpuData = \<lparr> gpus = Some [\<lparr> gpu_id = Num (Fin 0),
       gpu_name = Str ''Tesla T4'', memory_used = Some (Fin 1024),
       memory_total = Some (Fin 16384), temperature = Num (Fin 42), power_usage = Num (Fin 70),
       gpu_user = Str ''alice'' \<rparr>], active_users = Some [Str ''alice''],
       user_resources = Some [\<lparr> username = Str ''alice'', cpu_usage = Some (Fin 3),
       memory_usage = Some (Fin 4), gpu_memory_usage = Some (Fin 0),
       storage_usage = Some (Fin (1 / 2)), sessions = Some [\<lparr> terminal = Str ''pts/0'',
       session_from = Some ''10.0.0.5'' \<rparr>] \<rparr>],
       system_resources = Some \<lparr> sr_cpu = None,
       sr_memory = Some \<lparr> mem_usage_percent = Some (Fin 50), mem_used = Num (Fin 8192),
       mem_total = Num (Fin 16384) \<rparr>,
       sr_disk = Some \<lparr> disk_usage_percent = Some (Fin 40), disk_used = Str ''40G'',
       disk_total = Str ''100G'' \<rparr>,
       sr_storage_disks = Some [\<lparr> sd_mount_point = Some ''/mnt/data'',
       sd_used = Str ''1T'', sd_total = Str ''2T'', sd_available = Str ''1T'',
       sd_usage_percent = Some (Fin 50) \<rparr>],
       sr_storage_summary = Some \<lparr> sum_used = Str ''1T'', sum_total = Str ''2T'',
       sum_available = Str ''1T'',
       sum_usage_percent = Some (Fin 50) \<rparr> \<rparr> \<rparr>, loading = False,
       error = None, lastUpdated = 7 \<rparr>
   = Inr (Dashboard
       \<lparr> d_last_updated = 7, d_cpu = \<lparr> gc_value = Fin 0, gc_color = ''#4caf50'',
         gc_percent = Num (Fin 0), gc_line = [Str ''N/A''] \<rparr>,
         d_memory = \<lparr> gc_value = Fin 50, gc_color = ''#ff9800'',
         gc_percent = Str ''50.0'', gc_line = [Num (Fin 8192), Num (Fin 16384)] \<rparr>,
         d_disk = \<lparr> gc_value = Fin 40, gc_color = ''#4caf50'',
         gc_percent = Num (Fin 40), gc_line = [Str ''40G'', Str ''100G''] \<rparr>,
         d_storage = Some \<lparr> ss_summary = \<lparr> sc_used = Str ''1T'',
         sc_total = Str ''2T'', sc_value = Fin 50, sc_color = ''#ff9800'',
         sc_available = Str ''1T'' \<rparr>, ss_disks = [\<lparr> pc_title = ''data'',
         pc_used = Str ''1T'', pc_total = Str ''2T'', pc_value = Num (Fin 50),
         pc_color = ''#ff9800'', pc_available = Str ''1T'' \<rparr>] \<rparr>,
         d_gpus = [\<lparr> gv_id = Num (Fin 0), gv_name = Str ''Tesla T4'',
         gv_memory_used = Num (Fin 1024), gv_memory_total = Num (Fin 16384),
         gv_value = Fin (25 / 4), gv_color = ''#4caf50'', gv_temperature = Num (Fin 42),
         gv_power_usage = Num (Fin 70), gv_user = Str ''alice'' \<rparr>],
         d_users = UsersTable [\<lparr> uv_username = Str ''alice'', uv_cpu_value = Fin 3,
         uv_cpu_color = ''#4caf50'', uv_cpu_text = Num (Fin 3), uv_memory_value = Fin 4,
         uv_memory_color = ''#4caf50'', uv_memory_text = Num (Fin 4), uv_gpu_memory = ''None'',
         uv_storage = ''512MB'', uv_sessions = [(Str ''pts/0'',
         ''(10.0.0.5)'')] \<rparr>] \<rparr>)"
    by simp
  from inst [THEN conjunct2, THEN conjunct2, THEN conjunct2, THEN conjunct2, THEN conjunct2,
    THEN conjunct1]
  have b: "App (\<lambda>_. [])
     \<lparr> gpuData = \<lparr> gpus = Some [\<lparr> gpu_id = Num (Fin 0),
       gpu_name = Str ''Tesla T4'', memory_used = Some (Fin 1024),
       memory_total = Some (Fin 16384), temperature = Num (Fin 42), power_usage = Num (Fin 70),
       gpu_user = Str ''alice'' \<rparr>], active_users = Some [Str ''alice''],
       user_resources = None,
       system_resources = Some \<lparr> sr_cpu = Some \<lparr> cpu_usage_percent = Some (Fin 12),
       cpu_cores = Num (Fin 8) \<rparr>,
       sr_memory = Some \<lparr> mem_usage_percent = Some (Fin 50), mem_used = Num (Fin 8192),
       mem_total = Num (Fin 16384) \<rparr>,
       sr_disk = Some \<lparr> disk_usage_percent = Some (Fin 40), disk_used = Str ''40G'',
       disk_total = Str ''100G'' \<rparr>,
       sr_storage_disks = Some [\<lparr> sd_mount_point = Some ''/mnt/data'',
       sd_used = Str ''1T'', sd_total = Str ''2T'', sd_available = Str ''1T'',
       sd_usage_percent = Some (Fin 50) \<rparr>],
       sr_storage_summary = Some \<lparr> sum_used = Str ''1T'', sum_total = Str ''2T'',
       sum_available = Str ''1T'',
       sum_usage_percent = Some (Fin 50) \<rparr> \<rparr> \<rparr>, loading = False,
       error = None, lastUpdated = 7 \<rparr>
   = Inr (Dashboard
       \<lparr> d_last_updated = 7, d_cpu = \<lparr> gc_value = Fin 12, gc_color = ''#4caf50'',
         gc_percent = Str ''12.0'', gc_line = [Num (Fin 8)] \<rparr>,
         d_memory = \<lparr> gc_value = Fin 50, gc_color = ''#ff9800'',
         gc_percent = Str ''50.0'', gc_line = [Num (Fin 8192), Num (Fin 16384)] \<rparr>,
         d_disk = \<lparr> gc_value = Fin 40, gc_color = ''#4caf50'',
         gc_percent = Num (Fin 40), gc_line = [Str ''40G'', Str ''100G''] \<rparr>,
         d_storage = Some \<lparr> ss_summary = \<lparr> sc_used = Str ''1T'',
         sc_total = Str ''2T'', sc_value = Fin 50, sc_color = ''#ff9800'',
         sc_available = Str ''1T'' \<rparr>, ss_disks = [\<lparr> pc_title = ''data'',
         pc_used = Str ''1T'', pc_total = Str ''2T'', pc_value = Num (Fin 50),
         pc_color = ''#ff9800'', pc_available = Str ''1T'' \<rparr>] \<rparr>,
         d_gpus = [\<lparr> gv_id = Num (Fin 0), gv_name = Str ''Tesla T4'',
         gv_memory_used = Num (Fin 1024), gv_memory_total = Num (Fin 16384),
         gv_value = Fin (25 / 4), gv_color = ''#4caf50'', gv_temperature = Num (Fin 42),
         gv_power_usage = Num (Fin 70), gv_user = Str ''alice'' \<rparr>],
         d_users = NoActiveUsers \<rparr>)"
    by simp
  from a b show ?thesis by (rule conjI)
qed

text \<open>
  Against C3 as stated: a successful fetch stores a document with a GPU and a CPU record;
  the next fetch fails; the component then shows the error page and nothing of the stored
  document. And a document that lacks only the \<^verbatim>\<open>gpus\<close> key makes the whole render
  throw.
\<close>

theorem failed_fetch_replaces_display_counterexample:
  "App (\<lambda>_. [])
     (fetchData None 6000 Rejected
        (fetchData None 1000
           (Resolved \<lparr> gpus = Some [\<lparr> gpu_id = Num (Fin 0),
             gpu_name = Str ''Tesla T4'', memory_used = Some (Fin 1024),
             memory_total = Some (Fin 16384), temperature = Num (Fin 42),
             power_usage = Num (Fin 70), gpu_user = Str ''alice'' \<rparr>],
             active_users = Some [Str ''alice''],
             user_resources = Some [\<lparr> username = Str ''alice'',
             cpu_usage = Some (Fin 3), memory_usage = Some (Fin 4),
             gpu_memory_usage = Some (Fin 0), storage_usage = Some (Fin (1 / 2)),
             sessions = Some [\<lparr> terminal = Str ''pts/0'',
             session_from = Some ''10.0.0.5'' \<rparr>] \<rparr>],
             system_resources = Some \<lparr> sr_cpu = Some \<lparr> cpu_usage_percent = Some (Fin 12),
             cpu_cores = Num (Fin 8) \<rparr>,
             sr_memory = Some \<lparr> mem_usage_percent = Some (Fin 50),
             mem_used = Num (Fin 8192), mem_total = Num (Fin 16384) \<rparr>,
             sr_disk = Some \<lparr> disk_usage_percent = Some (Fin 40),
             disk_used = Str ''40G'', disk_total = Str ''100G'' \<rparr>,
             sr_storage_disks = Some [\<lparr> sd_mount_point = Some ''/mnt/data'',
             sd_used = Str ''1T'', sd_total = Str ''2T'', sd_available = Str ''1T'',
             sd_usage_percent = Some (Fin 50) \<rparr>],
             sr_storage_summary = Some \<lparr> sum_used = Str ''1T'', sum_total = Str ''2T'',
             sum_available = Str ''1T'',
             sum_usage_percent = Some (Fin 50) \<rparr> \<rparr> \<rparr>)
           (initial_state 0)))
   = Inr (ErrorView (connect_message None)) \<and>
   App (\<lambda>_. [])
     \<lparr> gpuData = \<lparr> gpus = None, active_users = Some [Str ''alice''],
       user_resources = Some [\<lparr> username = Str ''alice'', cpu_usage = Some (Fin 3),
       memory_usage = Some (Fin 4), gpu_memory_usage = Some (Fin 0),
       storage_usage = Some (Fin (1 / 2)), sessions = Some [\<lparr> terminal = Str ''pts/0'',
       session_from = Some ''10.0.0.5'' \<rparr>] \<rparr>],
       system_resources = Some \<lparr> sr_cpu = Some \<lparr> cpu_usage_percent = Some (Fin 12),
       cpu_cores = Num (Fin 8) \<rparr>,
       sr_memory = Some \<lparr> mem_usage_percent = Some (Fin 50), mem_used = Num (Fin 8192),
       mem_total = Num (Fin 16384) \<rparr>,
       sr_disk = Some \<lparr> disk_usage_percent = Some (Fin 40), disk_used = Str ''40G'',
       disk_total = Str ''100G'' \<rparr>,
       sr_storage_disks = Some [\<lparr> sd_mount_point = Some ''/mnt/data'',
       sd_used = Str ''1T'', sd_total = Str ''2T'', sd_available = Str ''1T'',
       sd_usage_percent = Some (Fin 50) \<rparr>],
       sr_storage_summary = Some \<lparr> sum_used = Str ''1T'', sum_total = Str ''2T'',
       sum_available = Str ''1T'',
       sum_usage_percent = Some (Fin 50) \<rparr> \<rparr> \<rparr>, loading = False,
       error = None, lastUpdated = 7 \<rparr>
   = Inl TypeError"
  by (simp add: App_def fetchData_def connect_message_nonempty render_dashboard_def
        storage_section_of_def storage_disk_card_def)

text \<open>
  C9, as the code has it: when \<^verbatim>\<open>system_resources\<close> is an object, the three cards and the
  storage summary are computed without a fault whichever of the \<^verbatim>\<open>cpu\<close>, \<^verbatim>\<open>memory\<close>,
  \<^verbatim>\<open>disk\<close> and \<^verbatim>\<open>storage_summary\<close> records or of their fields are absent, and the
  component returns the dashboard as long as the GPU list is present and the storage disks
  and the user rows render. Every field is guarded on its own, whatever the other fields
  hold: an absent record or field shows 0, \<^verbatim>\<open>N/A\<close> or, in the storage summary, \<^verbatim>\<open>0G\<close>,
  and a field that is present and truthy is shown as it is.
\<close>

theorem system_cards_total:
  assumes "\<not> loading st" and "error st = None"
    and "system_resources (gpuData st) = Some sr"
    and "storage_section_of sr = Inr storage"
    and "gpus (gpuData st) = Some gs"
    and "users_view_of big (user_resources (gpuData st)) = Inr users"
  shows "App big st = Inr (Dashboard
           \<lparr> d_last_updated = lastUpdated st, d_cpu = cpu_card big (sr_cpu sr),
             d_memory = memory_card big (sr_memory sr), d_disk = disk_card (sr_disk sr),
             d_storage = storage, d_gpus = map gpu_card_of gs, d_users = users \<rparr>) \<and>
         cpu_card big None = \<lparr> gc_value = Fin 0, gc_color = ''#4caf50'',
           gc_percent = Num (Fin 0), gc_line = [Str ''N/A''] \<rparr> \<and>
         (cpu_usage_percent c = None \<longrightarrow>
            gc_value (cpu_card big (Some c)) = Fin 0 \<and>
            gc_color (cpu_card big (Some c)) = ''#4caf50'' \<and>
            gc_percent (cpu_card big (Some c)) = Num (Fin 0)) \<and>
         (cpu_cores c = Undefined \<longrightarrow> gc_line (cpu_card big (Some c)) = [Str ''N/A'']) \<and>
         (cpu_usage_percent c = Some (Fin x) \<and> x \<noteq> 0 \<longrightarrow>
            gc_value (cpu_card big (Some c)) = Fin x) \<and>
         (truthy (cpu_cores c) \<longrightarrow> gc_line (cpu_card big (Some c)) = [cpu_cores c]) \<and>
         memory_card big None = \<lparr> gc_value = Fin 0, gc_color = ''#4caf50'',
           gc_percent = Num (Fin 0), gc_line = [Num (Fin 0), Num (Fin 0)] \<rparr> \<and>
         (mem_usage_percent m = None \<longrightarrow>
            gc_value (memory_card big (Some m)) = Fin 0 \<and>
            gc_color (memory_card big (Some m)) = ''#4caf50'' \<and>
            gc_percent (memory_card big (Some m)) = Num (Fin 0)) \<and>
         length (gc_line (memory_card big (Some m))) = 2 \<and>
         (mem_used m = Undefined \<longrightarrow> gc_line (memory_card big (Some m)) ! 0 = Num (Fin 0)) \<and>
         (mem_total m = Undefined \<longrightarrow> gc_line (memory_card big (Some m)) ! 1 = Num (Fin 0)) \<and>
         (truthy (mem_used m) \<longrightarrow> gc_line (memory_card big (Some m)) ! 0 = mem_used m) \<and>
         (truthy (mem_total m) \<longrightarrow> gc_line (memory_card big (Some m)) ! 1 = mem_total m) \<and>
         (mem_usage_percent m = Some (Fin x) \<and> x \<noteq> 0 \<longrightarrow>
            gc_value (memory_card big (Some m)) = Fin x) \<and>
         disk_card None = \<lparr> gc_value = Fin 0, gc_color = ''#4caf50'',
           gc_percent = Num (Fin 0), gc_line = [Str ''N/A'', Str ''N/A''] \<rparr> \<and>
         (disk_usage_percent k = None \<longrightarrow>
            gc_value (disk_card (Some k)) = Fin 0 \<and>
            gc_color (disk_card (Some k)) = ''#4caf50'' \<and>
            gc_percent (disk_card (Some k)) = Num (Fin 0)) \<and>
         length (gc_line (disk_card (Some k))) = 2 \<and>
         (disk_used k = Undefined \<longrightarrow> gc_line (disk_card (Some k)) ! 0 = Str ''N/A'') \<and>
         (disk_total k = Undefined \<longrightarrow> gc_line (disk_card (Some k)) ! 1 = Str ''N/A'') \<and>
         (truthy (disk_used k) \<longrightarrow> gc_line (disk_card (Some k)) ! 0 = disk_used k) \<and>
         (truthy (disk_total k) \<longrightarrow> gc_line (disk_card (Some k)) ! 1 = disk_total k) \<and>
         (disk_usage_percent k = Some (Fin x) \<and> x \<noteq> 0 \<longrightarrow>
            gc_value (disk_card (Some k)) = Fin x \<and>
            gc_percent (disk_card (Some k)) = Num (Fin x)) \<and>
         storage_summary_card None = \<lparr> sc_used = Str ''0G'', sc_total = Str ''0G'',
           sc_value = Fin 0, sc_color = ''#4caf50'', sc_available = Str ''0G'' \<rparr> \<and>
         (sum_used s = Undefined \<longrightarrow> sc_used (storage_summary_card (Some s)) = Str ''0G'') \<and>
         (sum_total s = Undefined \<longrightarrow> sc_total (storage_summary_card (Some s)) = Str ''0G'') \<and>
         (sum_available s = Undefined \<longrightarrow>
            sc_available (storage_summary_card (Some s)) = Str ''0G'') \<and>
         (sum_usage_percent s = None \<longrightarrow>
            sc_value (storage_summary_card (Some s)) = Fin 0 \<and>
            sc_color (storage_summary_card (Some s)) = ''#4caf50'') \<and>
         (truthy (sum_used s) \<longrightarrow> sc_used (storage_summary_card (Some s)) = sum_used s) \<and>
         (truthy (sum_total s) \<longrightarrow> sc_total (storage_summary_card (Some s)) = sum_total s) \<and>
         (truthy (sum_available s) \<longrightarrow>
            sc_available (storage_summary_card (Some s)) = sum_available s) \<and>
         (sum_usage_percent s = Some (Fin x) \<and> x \<noteq> 0 \<longrightarrow>
            sc_value (storage_summary_card (Some s)) = Fin x)"
proof -
  have app: "App big st = Inr (Dashboard
           \<lparr> d_last_updated = lastUpdated st, d_cpu = cpu_card big (sr_cpu sr),
             d_memory = memory_card big (sr_memory sr), d_disk = disk_card (sr_disk sr),
             d_storage = storage, d_gpus = map gpu_card_of gs, d_users = users \<rparr>)"
    using assms by (simp add: App_def render_dashboard_def)
  have cpu: "cpu_card big None = \<lparr> gc_value = Fin 0, gc_color = ''#4caf50'',
    gc_percent = Num (Fin 0), gc_line = [Str ''N/A''] \<rparr>"
    "(cpu_usage_percent c = None \<longrightarrow>
        gc_value (cpu_card big (Some c)) = Fin 0 \<and>
        gc_color (cpu_card big (Some c)) = ''#4caf50'' \<and>
        gc_percent (cpu_card big (Some c)) = Num (Fin 0))"
    "(cpu_cores c = Undefined \<longrightarrow> gc_line (cpu_card big (Some c)) = [Str ''N/A''])"
    "(cpu_usage_percent c = Some (Fin x) \<and> x \<noteq> 0 \<longrightarrow>
        gc_value (cpu_card big (Some c)) = Fin x)"
    "(truthy (cpu_cores c) \<longrightarrow> gc_line (cpu_card big (Some c)) = [cpu_cores c])"
    by (auto simp: cpu_card_def memory_card_def disk_card_def storage_summary_card_def opt_num_def
          opt_val_def opt_toFixed_def num_or_def js_or_def getProgressColor_def
          elim: truthy.elims)
  have mem: "memory_card big None = \<lparr> gc_value = Fin 0, gc_color = ''#4caf50'',
    gc_percent = Num (Fin 0), gc_line = [Num (Fin 0), Num (Fin 0)] \<rparr>"
    "(mem_usage_percent m = None \<longrightarrow>
        gc_value (memory_card big (Some m)) = Fin 0 \<and>
        gc_color (memory_card big (Some m)) = ''#4caf50'' \<and>
        gc_percent (memory_card big (Some m)) = Num (Fin 0))"
    "length (gc_line (memory_card big (Some m))) = 2"
    "(mem_used m = Undefined \<longrightarrow> gc_line (memory_card big (Some m)) ! 0 = Num (Fin 0))"
    "(mem_total m = Undefined \<longrightarrow> gc_line (memory_card big (Some m)) ! 1 = Num (Fin 0))"
    "(truthy (mem_used m) \<longrightarrow> gc_line (memory_card big (Some m)) ! 0 = mem_used m)"
    "(truthy (mem_total m) \<longrightarrow> gc_line (memory_card big (Some m)) ! 1 = mem_total m)"
    "(mem_usage_percent m = Some (Fin x) \<and> x \<noteq> 0 \<longrightarrow>
        gc_value (memory_card big (Some m)) = Fin x)"
    by (auto simp: cpu_card_def memory_card_def disk_card_def storage_summary_card_def opt_num_def
          opt_val_def opt_toFixed_def num_or_def js_or_def getProgressColor_def
          elim: truthy.elims)
  have disk: "disk_card None = \<lparr> gc_value = Fin 0, gc_color = ''#4caf50'',
    gc_percent = Num (Fin 0), gc_line = [Str ''N/A'', Str ''N/A''] \<rparr>"
    "(disk_usage_percent k = None \<longrightarrow>
        gc_value (disk_card (Some k)) = Fin 0 \<and>
        gc_color (disk_card (Some k)) = ''#4caf50'' \<and>
        gc_percent (disk_card (Some k)) = Num (Fin 0))"
    "length (gc_line (disk_card (Some k))) = 2"
    "(disk_used k = Undefined \<longrightarrow> gc_line (disk_card (Some k)) ! 0 = Str ''N/A'')"
    "(disk_total k = Undefined \<longrightarrow> gc_line (disk_card (Some k)) ! 1 = Str ''N/A'')"
    "(truthy (disk_used k) \<longrightarrow> gc_line (disk_card (Some k)) ! 0 = disk_used k)"
    "(truthy (disk_total k) \<longrightarrow> gc_line (disk_card (Some k)) ! 1 = disk_total k)"
    "(disk_usage_percent k = Some (Fin x) \<and> x \<noteq> 0 \<longrightarrow>
        gc_value (disk_card (Some k)) = Fin x \<and>
        gc_percent (disk_card (Some k)) = Num (Fin x))"
    by (auto simp: cpu_card_def memory_card_def disk_card_def storage_summary_card_def opt_num_def
          opt_val_def opt_toFixed_def num_or_def js_or_def getProgressColor_def
          elim: truthy.elims)
  have summ: "storage_summary_card None = \<lparr> sc_used = Str ''0G'', sc_total = Str ''0G'',
    sc_value = Fin 0, sc_color = ''#4caf50'', sc_available = Str ''0G'' \<rparr>"
    "(sum_used s = Undefined \<longrightarrow> sc_used (storage_summary_card (Some s)) = Str ''0G'')"
    "(sum_total s = Undefined \<longrightarrow> sc_total (storage_summary_card (Some s)) = Str ''0G'')"
    "(sum_available s = Undefined \<longrightarrow>
        sc_available (storage_summary_card (Some s)) = Str ''0G'')"
    "(sum_usage_percent s = None \<longrightarrow>
        sc_value (storage_summary_card (Some s)) = Fin 0 \<and>
        sc_color (storage_summary_card (Some s)) = ''#4caf50'')"
    "(truthy (sum_used s) \<longrightarrow> sc_used (storage_summary_card (Some s)) = sum_used s)"
    "(truthy (sum_total s) \<longrightarrow> sc_total (storage_summary_card (Some s)) = sum_total s)"
    "(truthy (sum_available s) \<longrightarrow>
        sc_available (storage_summary_card (Some s)) = sum_available s)"
    "(sum_usage_percent s = Some (Fin x) \<and> x \<noteq> 0 \<longrightarrow>
        sc_value (storage_summary_card (Some s)) = Fin x)"
    by (auto simp: cpu_card_def memory_card_def disk_card_def storage_summary_card_def opt_num_def
          opt_val_def opt_toFixed_def num_or_def js_or_def getProgressColor_def
          elim: truthy.elims)
  from app cpu mem disk summ show ?thesis
    by (intro conjI)
qed

text \<open>
  The theorem at a document whose CPU record has no core count, whose memory record has
  only its total, whose disk record is absent and whose storage summary has only its
  total, with one storage disk.
\<close>

theorem system_cards_total_witness:
  "App (\<lambda>_. [])
     \<lparr> gpuData = \<lparr> gpus = Some [], active_users = Some [],
       user_resources = Some [],
       system_resources = Some \<lparr> sr_cpu = Some \<lparr> cpu_usage_percent = Some (Fin 12),
       cpu_cores = Undefined \<rparr>, sr_memory = Some \<lparr> mem_usage_percent = None,
       mem_used = Undefined, mem_total = Num (Fin 16384) \<rparr>, sr_disk = None,
       sr_storage_disks = Some [\<lparr> sd_mount_point = Some ''/mnt/data'',
       sd_used = Str ''1T'', sd_total = Str ''2T'', sd_available = Str ''1T'',
       sd_usage_percent = Some (Fin 50) \<rparr>],
       sr_storage_summary = Some \<lparr> sum_used = Undefined, sum_total = Str ''2T'',
       sum_available = Undefined, sum_usage_percent = None \<rparr> \<rparr> \<rparr>,
       loading = False, error = None, lastUpdated = 7 \<rparr>
   = Inr (Dashboard
       \<lparr> d_last_updated = 7, d_cpu = \<lparr> gc_value = Fin 12, gc_color = ''#4caf50'',
         gc_percent = Str ''12.0'', gc_line = [Str ''N/A''] \<rparr>,
         d_memory = \<lparr> gc_value = Fin 0, gc_color = ''#4caf50'',
         gc_percent = Num (Fin 0), gc_line = [Num (Fin 0), Num (Fin 16384)] \<rparr>,
         d_disk = \<lparr> gc_value = Fin 0, gc_color = ''#4caf50'', gc_percent = Num (Fin 0),
         gc_line = [Str ''N/A'', Str ''N/A''] \<rparr>,
         d_storage = Some \<lparr> ss_summary = \<lparr> sc_used = Str ''0G'',
         sc_total = Str ''2T'', sc_value = Fin 0, sc_color = ''#4caf50'',
         sc_available = Str ''0G'' \<rparr>, ss_disks = [\<lparr> pc_title = ''data'',
         pc_used = Str ''1T'', pc_total = Str ''2T'', pc_value = Num (Fin 50),
         pc_color = ''#ff9800'', pc_available = Str ''1T'' \<rparr>] \<rparr>, d_gpus = [],
         d_users = NoActiveUsers \<rparr>)"
proof -
  let ?sr = "\<lparr> sr_cpu = Some \<lparr> cpu_usage_percent = Some (Fin 12),
    cpu_cores = Undefined \<rparr>, sr_memory = Some \<lparr> mem_usage_percent = None,
    mem_used = Undefined, mem_total = Num (Fin 16384) \<rparr>, sr_disk = None,
    sr_storage_disks = Some [\<lparr> sd_mount_point = Some ''/mnt/data'',
    sd_used = Str ''1T'', sd_total = Str ''2T'', sd_available = Str ''1T'',
    sd_usage_percent = Some (Fin 50) \<rparr>],
    sr_storage_summary = Some \<lparr> sum_used = Undefined, sum_total = Str ''2T'',
    sum_available = Undefined, sum_usage_percent = None \<rparr> \<rparr>"
  let ?st = "\<lparr> gpuData = \<lparr> gpus = Some [], active_users = Some [],
    user_resources = Some [],
    system_resources = Some \<lparr> sr_cpu = Some \<lparr> cpu_usage_percent = Some (Fin 12),
    cpu_cores = Undefined \<rparr>, sr_memory = Some \<lparr> mem_usage_percent = None,
    mem_used = Undefined, mem_total = Num (Fin 16384) \<rparr>, sr_disk = None,
    sr_storage_disks = Some [\<lparr> sd_mount_point = Some ''/mnt/data'',
    sd_used = Str ''1T'', sd_total = Str ''2T'', sd_available = Str ''1T'',
    sd_usage_percent = Some (Fin 50) \<rparr>],
    sr_storage_summary = Some \<lparr> sum_used = Undefined, sum_total = Str ''2T'',
    sum_available = Undefined, sum_usage_percent = None \<rparr> \<rparr> \<rparr>,
    loading = False, error = None, lastUpdated = 7 \<rparr>"
  have h1: "\<not> loading ?st" by simp
  have h2: "error ?st = None" by simp
  have h3: "system_resources (gpuData ?st) = Some ?sr" by simp
  have h4: "storage_section_of ?sr
      = Inr (Some \<lparr> ss_summary = \<lparr> sc_used = Str ''0G'', sc_total = Str ''2T'',
        sc_value = Fin 0, sc_color = ''#4caf50'', sc_available = Str ''0G'' \<rparr>,
        ss_disks = [\<lparr> pc_title = ''data'', pc_used = Str ''1T'', pc_total = Str ''2T'',
        pc_value = Num (Fin 50), pc_color = ''#ff9800'',
        pc_available = Str ''1T'' \<rparr>] \<rparr>)"
    by code_simp
  have h5: "gpus (gpuData ?st) = Some []" by simp
  have h6: "users_view_of (\<lambda>_. []) (user_resources (gpuData ?st)) = Inr NoActiveUsers"
    by (simp add: users_view_of_def)
  have cpu: "cpu_card (\<lambda>_. []) (Some \<lparr> cpu_usage_percent = Some (Fin 12),
    cpu_cores = Undefined \<rparr>)
      = \<lparr> gc_value = Fin 12, gc_color = ''#4caf50'', gc_percent = Str ''12.0'',
        gc_line = [Str ''N/A''] \<rparr>"
    by code_simp
  have mem: "memory_card (\<lambda>_. []) (Some \<lparr> mem_usage_percent = None,
    mem_used = Undefined, mem_total = Num (Fin 16384) \<rparr>)
      = \<lparr> gc_value = Fin 0, gc_color = ''#4caf50'', gc_percent = Num (Fin 0),
        gc_line = [Num (Fin 0), Num (Fin 16384)] \<rparr>"
    by code_simp
  from system_cards_total [OF h1 h2 h3 h4 h5 h6, THEN conjunct1] cpu mem disk_card_None
  show ?thesis by simp
qed

text \<open>
  Against C9 as stated: a document without the \<^verbatim>\<open>system_resources\<close> key makes the render
  throw, since \<^verbatim>\<open>system_resources.cpu\<close> is read without a guard.
\<close>

theorem absent_system_resources_counterexample:
  "App (\<lambda>_. [])
     \<lparr> gpuData = \<lparr> gpus = Some [], active_users = Some [],
       user_resources = Some [],
                   system_resources = None \<rparr>,
       loading = False, error = None, lastUpdated = 0 \<rparr>
   = Inl TypeError"
  by (simp add: App_def render_dashboard_def)

text \<open>
  C10: in a row of the users table a GPU memory usage of zero, like an absent one, shows
  \<^verbatim>\<open>None\<close>, and a storage usage of zero, like an absent one, shows \<^verbatim>\<open>N/A\<close>; a positive
  storage usage of at most 1 shows the value times 1024 with no decimals and the unit
  \<^verbatim>\<open>MB\<close>, one above 1 shows the value with one decimal and the unit \<^verbatim>\<open>G\<close>.
\<close>

theorem user_cells_zero_as_absent:
  assumes "user_row_of big u = Inr r"
  shows "(gpu_memory_usage u = Some (Fin 0) \<longrightarrow> uv_gpu_memory r = ''None'') \<and>
         (gpu_memory_usage u = None \<longrightarrow> uv_gpu_memory r = ''None'') \<and>
         (storage_usage u = Some (Fin 0) \<longrightarrow> uv_storage r = ''N/A'') \<and>
         (storage_usage u = None \<longrightarrow> uv_storage r = ''N/A'') \<and>
         (storage_usage u = Some (Fin v) \<and> 0 < v \<and> v \<le> 1 \<longrightarrow>
            uv_storage r = toFixed big 0 (Fin (v * 1024)) @ ''MB'') \<and>
         (storage_usage u = Some (Fin v) \<and> 1 < v \<longrightarrow>
            uv_storage r = toFixed big 1 (Fin v) @ ''G'')"
proof -
  have mb: "0 < v \<and> v \<le> 1 \<longrightarrow> js_mul (Fin v) (Fin 1024) = Fin (v * 1024)"
  proof
    assume "0 < v \<and> v \<le> 1"
    then have "\<bar>v * 1024\<bar> \<le> 1024" by simp
    with double_overflow_gt_1024 have "\<bar>v * 1024\<bar> < double_overflow" by linarith
    then show "js_mul (Fin v) (Fin 1024) = Fin (v * 1024)"
      by (simp add: finite_result_in_range)
  qed
  from assms have r: "uv_gpu_memory r = gpu_memory_cell big (gpu_memory_usage u)"
      "uv_storage r = storage_cell big (storage_usage u)"
    by (auto simp: user_row_of_def split: option.splits)
  show ?thesis
    using mb by (auto simp: r gpu_memory_cell_def storage_cell_def)
qed

text \<open>
  The theorem at four users: both usages zero, both absent, a storage usage of 0.5 (shown
  as \<^verbatim>\<open>512MB\<close>) and one of 2.5 (shown as \<^verbatim>\<open>2.5G\<close>).
\<close>

theorem user_cells_zero_as_absent_witness:
  "uv_gpu_memory (projr (user_row_of (\<lambda>_. [])
       \<lparr> username = Str ''alice'', cpu_usage = Some (Fin 3), memory_usage = Some (Fin 4),
         gpu_memory_usage = Some (Fin 0), storage_usage = Some (Fin 0), sessions = Some [] \<rparr>))
     = ''None'' \<and>
   uv_storage (projr (user_row_of (\<lambda>_. [])
       \<lparr> username = Str ''alice'', cpu_usage = Some (Fin 3), memory_usage = Some (Fin 4),
         gpu_memory_usage = Some (Fin 0), storage_usage = Some (Fin 0), sessions = Some [] \<rparr>))
     = ''N/A'' \<and>
   uv_gpu_memory (projr (user_row_of (\<lambda>_. [])
       \<lparr> username = Str ''bob'', cpu_usage = None, memory_usage = None,
         gpu_memory_usage = None, storage_usage = None, sessions = Some [] \<rparr>))
     = ''None'' \<and>
   uv_storage (projr (user_row_of (\<lambda>_. [])
       \<lparr> username = Str ''bob'', cpu_usage = None, memory_usage = None,
         gpu_memory_usage = None, storage_usage = None, sessions = Some [] \<rparr>))
     = ''N/A'' \<and>
   uv_storage (projr (user_row_of (\<lambda>_. [])
       \<lparr> username = Str ''carol'', cpu_usage = None, memory_usage = None,
         gpu_memory_usage = None, storage_usage = Some (Fin (1 / 2)), sessions = Some [] \<rparr>))
     = ''512MB'' \<and>
   uv_storage (projr (user_row_of (\<lambda>_. [])
       \<lparr> username = Str ''dave'', cpu_usage = None, memory_usage = None,
         gpu_memory_usage = None, storage_usage = Some (Fin (5 / 2)), sessions = Some [] \<rparr>))
     = ''2.5G''"
proof -
  let ?big = "\<lambda>_::rat. []::string"
  let ?a = "\<lparr> username = Str ''alice'', cpu_usage = Some (Fin 3), memory_usage = Some (Fin 4),
         gpu_memory_usage = Some (Fin 0), storage_usage = Some (Fin 0), sessions = Some [] \<rparr>"
  let ?b = "\<lparr> username = Str ''bob'', cpu_usage = None, memory_usage = None,
         gpu_memory_usage = None, storage_usage = None, sessions = Some [] \<rparr>"
  let ?c = "\<lparr> username = Str ''carol'', cpu_usage = None, memory_usage = None,
         gpu_memory_usage = None, storage_usage = Some (Fin (1 / 2)), sessions = Some [] \<rparr>"
  let ?d = "\<lparr> username = Str ''dave'', cpu_usage = None, memory_usage = None,
         gpu_memory_usage = None, storage_usage = Some (Fin (5 / 2)), sessions = Some [] \<rparr>"
  have row: "\<And>u. sessions u = Some [] \<Longrightarrow>
      user_row_of ?big u = Inr (projr (user_row_of ?big u))"
    by (simp add: user_row_of_def)
  have a: "user_row_of ?big ?a = Inr (projr (user_row_of ?big ?a))" by (rule row) simp
  have b: "user_row_of ?big ?b = Inr (projr (user_row_of ?big ?b))" by (rule row) simp
  have c: "user_row_of ?big ?c = Inr (projr (user_row_of ?big ?c))" by (rule row) simp
  have d: "user_row_of ?big ?d = Inr (projr (user_row_of ?big ?d))" by (rule row) simp
  have mb: "toFixed ?big 0 (Fin (1 / 2 * 1024)) = ''512''" by code_simp
  have g: "toFixed ?big 1 (Fin (5 / 2)) = ''2.5''" by code_simp
  from user_cells_zero_as_absent [OF a] user_cells_zero_as_absent [OF b]
    user_cells_zero_as_absent [OF c, of "1 / 2"] user_cells_zero_as_absent [OF d, of "5 / 2"]
    mb g
  show ?thesis by simp
qed

section \<open>Properties of the collector as specified\<close>

lemma session_failed_unreachable: "session_failed (collect False now out)"
  by (simp add: collect_def session_failed_def all_metrics_def)

lemma refresh_unreachable:
  "refresh now (collect False now' out) c
     = (\<lparr> served_snapshot = map_option fst (cached c), isStale = True,
          lastError = Some ConnectionError \<rparr>,
        c\<lparr> cache_lastError := Some ConnectionError \<rparr>)"
  by (simp add: refresh_def session_failed_unreachable)

lemma refresh_published:
  "\<not> session_failed s \<Longrightarrow>
   refresh now s c
     = (\<lparr> served_snapshot = Some s, isStale = False, lastError = None \<rparr>,
        \<lparr> cached = Some (s, now), cache_lastError = None \<rparr>)"
  by (simp add: refresh_def)

text \<open>
  C4: when the cache holds a Snapshot whose age exceeds \<open>maxAge\<close> and the refresh fails
  because the session cannot be established, so that the Aggregator returns its Snapshot
  of connection errors, \<^verbatim>\<open>getCurrent\<close> returns a structure, not an exception: it carries
  the cached Snapshot, \<open>isStale\<close> set and \<open>ConnectionError\<close> in \<open>lastError\<close>; the cache
  keeps that Snapshot. \<^verbatim>\<open>forceRefresh\<close> answers a failed refresh the same way. In
  particular a Snapshot published by an earlier successful refresh is what a later failed
  one serves.
\<close>

theorem stale_snapshot_served:
  assumes "cached c = Some (s, t)" and "maxAge < now - t"
  shows "getCurrent maxAge now False out c
           = (\<lparr> served_snapshot = Some s, isStale = True,
             lastError = Some ConnectionError \<rparr>,
              c\<lparr> cache_lastError := Some ConnectionError \<rparr>) \<and>
         cached (snd (getCurrent maxAge now False out c)) = Some (s, t) \<and>
         forceRefresh now False out c
           = (\<lparr> served_snapshot = Some s, isStale = True,
             lastError = Some ConnectionError \<rparr>,
              c\<lparr> cache_lastError := Some ConnectionError \<rparr>) \<and>
         (\<not> session_failed (collect True t out0) \<longrightarrow>
            fst (getCurrent maxAge now False out (snd (forceRefresh t True out0 c0)))
              = \<lparr> served_snapshot = Some (collect True t out0), isStale = True,
                  lastError = Some ConnectionError \<rparr>)"
proof -
  have ex: "expired maxAge now c"
    using assms by (simp add: expired_def)
  have cur: "getCurrent maxAge now False out c
           = (\<lparr> served_snapshot = Some s, isStale = True,
             lastError = Some ConnectionError \<rparr>,
              c\<lparr> cache_lastError := Some ConnectionError \<rparr>)"
    using ex assms(1) by (simp add: getCurrent_def refresh_unreachable)
  have kept: "cached (snd (getCurrent maxAge now False out c)) = Some (s, t)"
    using cur assms(1) by simp
  have force: "forceRefresh now False out c
           = (\<lparr> served_snapshot = Some s, isStale = True,
             lastError = Some ConnectionError \<rparr>,
              c\<lparr> cache_lastError := Some ConnectionError \<rparr>)"
    using assms(1) by (simp add: forceRefresh_def refresh_unreachable)
  have later: "\<not> session_failed (collect True t out0) \<longrightarrow>
            fst (getCurrent maxAge now False out (snd (forceRefresh t True out0 c0)))
              = \<lparr> served_snapshot = Some (collect True t out0), isStale = True,
                  lastError = Some ConnectionError \<rparr>"
    using assms(2)
    by (simp add: forceRefresh_def refresh_published getCurrent_def expired_def
          refresh_unreachable)
  from cur kept force later show ?thesis
    by (intro conjI)
qed

text \<open>
  The theorem at a cache that published, at time 1000, a Snapshot with one GPU, one user
  and all system records, read at time 20000 with a maximal age of 5000 while the session
  cannot be established: the Snapshot served is that one, not an empty one.
\<close>

theorem stale_snapshot_served_witness:
  "fst (getCurrent 5000 20000 False
          \<lparr> gpu_outcome = Inl ConnectionError, cpu_outcome = Inl ConnectionError,
            memory_outcome = Inl ConnectionError, disk_outcome = Inl ConnectionError,
            partitions_outcome = Inl ConnectionError,
            users_outcome = Inl ConnectionError \<rparr>
          (snd (forceRefresh 1000 True
                  \<lparr> gpu_outcome = Inr [\<lparr> gpu_id = Num (Fin 0),
                    gpu_name = Str ''Tesla T4'', memory_used = Some (Fin 1024),
                    memory_total = Some (Fin 16384), temperature = Num (Fin 42),
                    power_usage = Num (Fin 70), gpu_user = Str ''alice'' \<rparr>],
                    cpu_outcome = Inr \<lparr> cpu_usage_percent = Some (Fin 12),
                    cpu_cores = Num (Fin 8) \<rparr>,
                    memory_outcome = Inr \<lparr> mem_usage_percent = Some (Fin 50),
                    mem_used = Num (Fin 8192), mem_total = Num (Fin 16384) \<rparr>,
                    disk_outcome = Inr \<lparr> disk_usage_percent = Some (Fin 40),
                    disk_used = Str ''40G'', disk_total = Str ''100G'' \<rparr>,
                    partitions_outcome = Inr ([\<lparr> sd_mount_point = Some ''/mnt/data'',
                    sd_used = Str ''1T'', sd_total = Str ''2T'', sd_available = Str ''1T'',
                    sd_usage_percent = Some (Fin 50) \<rparr>], \<lparr> sum_used = Str ''1T'',
                    sum_total = Str ''2T'', sum_available = Str ''1T'',
                    sum_usage_percent = Some (Fin 50) \<rparr>),
                    users_outcome = Inr [\<lparr> username = Str ''alice'',
                    cpu_usage = Some (Fin 3), memory_usage = Some (Fin 4),
                    gpu_memory_usage = Some (Fin 0), storage_usage = Some (Fin (1 / 2)),
                    sessions = Some [\<lparr> terminal = Str ''pts/0'',
                    session_from = Some ''10.0.0.5'' \<rparr>] \<rparr>] \<rparr>
                  \<lparr> cached = None, cache_lastError = None \<rparr>)))
   = \<lparr> served_snapshot = Some \<lparr> snap_gpus = [\<lparr> gpu_id = Num (Fin 0),
     gpu_name = Str ''Tesla T4'', memory_used = Some (Fin 1024),
     memory_total = Some (Fin 16384), temperature = Num (Fin 42), power_usage = Num (Fin 70),
     gpu_user = Str ''alice'' \<rparr>], snap_users = [\<lparr> username = Str ''alice'',
     cpu_usage = Some (Fin 3), memory_usage = Some (Fin 4), gpu_memory_usage = Some (Fin 0),
     storage_usage = Some (Fin (1 / 2)), sessions = Some [\<lparr> terminal = Str ''pts/0'',
     session_from = Some ''10.0.0.5'' \<rparr>] \<rparr>],
     snap_system = \<lparr> sr_cpu = Some \<lparr> cpu_usage_percent = Some (Fin 12),
     cpu_cores = Num (Fin 8) \<rparr>,
     sr_memory = Some \<lparr> mem_usage_percent = Some (Fin 50), mem_used = Num (Fin 8192),
     mem_total = Num (Fin 16384) \<rparr>,
     sr_disk = Some \<lparr> disk_usage_percent = Some (Fin 40), disk_used = Str ''40G'',
     disk_total = Str ''100G'' \<rparr>,
     sr_storage_disks = Some [\<lparr> sd_mount_point = Some ''/mnt/data'',
     sd_used = Str ''1T'', sd_total = Str ''2T'', sd_available = Str ''1T'',
     sd_usage_percent = Some (Fin 50) \<rparr>],
     sr_storage_summary = Some \<lparr> sum_used = Str ''1T'', sum_total = Str ''2T'',
     sum_available = Str ''1T'', sum_usage_percent = Some (Fin 50) \<rparr> \<rparr>,
     snap_timestamp = 1000, snap_failures = [] \<rparr>, isStale = True,
     lastError = Some ConnectionError \<rparr> \<and>
   getCurrent 5000 20000 False
     \<lparr> gpu_outcome = Inl ConnectionError, cpu_outcome = Inl ConnectionError,
       memory_outcome = Inl ConnectionError, disk_outcome = Inl ConnectionError,
       partitions_outcome = Inl ConnectionError, users_outcome = Inl ConnectionError \<rparr>
     \<lparr> cached = Some (\<lparr> snap_gpus = [\<lparr> gpu_id = Num (Fin 0),
       gpu_name = Str ''Tesla T4'', memory_used = Some (Fin 1024),
       memory_total = Some (Fin 16384), temperature = Num (Fin 42), power_usage = Num (Fin 70),
       gpu_user = Str ''alice'' \<rparr>], snap_users = [\<lparr> username = Str ''alice'',
       cpu_usage = Some (Fin 3), memory_usage = Some (Fin 4), gpu_memory_usage = Some (Fin 0),
       storage_usage = Some (Fin (1 / 2)), sessions = Some [\<lparr> terminal = Str ''pts/0'',
       session_from = Some ''10.0.0.5'' \<rparr>] \<rparr>],
       snap_system = \<lparr> sr_cpu = Some \<lparr> cpu_usage_percent = Some (Fin 12),
       cpu_cores = Num (Fin 8) \<rparr>,
       sr_memory = Some \<lparr> mem_usage_percent = Some (Fin 50), mem_used = Num (Fin 8192),
       mem_total = Num (Fin 16384) \<rparr>,
       sr_disk = Some \<lparr> disk_usage_percent = Some (Fin 40), disk_used = Str ''40G'',
       disk_total = Str ''100G'' \<rparr>,
       sr_storage_disks = Some [\<lparr> sd_mount_point = Some ''/mnt/data'',
       sd_used = Str ''1T'', sd_total = Str ''2T'', sd_available = Str ''1T'',
       sd_usage_percent = Some (Fin 50) \<rparr>],
       sr_storage_summary = Some \<lparr> sum_used = Str ''1T'', sum_total = Str ''2T'',
       sum_available = Str ''1T'', sum_usage_percent = Some (Fin 50) \<rparr> \<rparr>,
       snap_timestamp = 1000, snap_failures = [] \<rparr>, 1000),
       cache_lastError = None \<rparr>
   = (\<lparr> served_snapshot = Some \<lparr> snap_gpus = [\<lparr> gpu_id = Num (Fin 0),
     gpu_name = Str ''Tesla T4'', memory_used = Some (Fin 1024),
     memory_total = Some (Fin 16384), temperature = Num (Fin 42), power_usage = Num (Fin 70),
     gpu_user = Str ''alice'' \<rparr>], snap_users = [\<lparr> username = Str ''alice'',
     cpu_usage = Some (Fin 3), memory_usage = Some (Fin 4), gpu_memory_usage = Some (Fin 0),
     storage_usage = Some (Fin (1 / 2)), sessions = Some [\<lparr> terminal = Str ''pts/0'',
     session_from = Some ''10.0.0.5'' \<rparr>] \<rparr>],
     snap_system = \<lparr> sr_cpu = Some \<lparr> cpu_usage_percent = Some (Fin 12),
     cpu_cores = Num (Fin 8) \<rparr>,
     sr_memory = Some \<lparr> mem_usage_percent = Some (Fin 50), mem_used = Num (Fin 8192),
     mem_total = Num (Fin 16384) \<rparr>,
     sr_disk = Some \<lparr> disk_usage_percent = Some (Fin 40), disk_used = Str ''40G'',
     disk_total = Str ''100G'' \<rparr>,
     sr_storage_disks = Some [\<lparr> sd_mount_point = Some ''/mnt/data'',
     sd_used = Str ''1T'', sd_total = Str ''2T'', sd_available = Str ''1T'',
     sd_usage_percent = Some (Fin 50) \<rparr>],
     sr_storage_summary = Some \<lparr> sum_used = Str ''1T'', sum_total = Str ''2T'',
     sum_available = Str ''1T'', sum_usage_percent = Some (Fin 50) \<rparr> \<rparr>,
     snap_timestamp = 1000, snap_failures = [] \<rparr>, isStale = True,
     lastError = Some ConnectionError \<rparr>,
      \<lparr> cached = Some (\<lparr> snap_gpus = [\<lparr> gpu_id = Num (Fin 0),
        gpu_name = Str ''Tesla T4'', memory_used = Some (Fin 1024),
        memory_total = Some (Fin 16384), temperature = Num (Fin 42),
        power_usage = Num (Fin 70), gpu_user = Str ''alice'' \<rparr>],
        snap_users = [\<lparr> username = Str ''alice'', cpu_usage = Some (Fin 3),
        memory_usage = Some (Fin 4), gpu_memory_usage = Some (Fin 0),
        storage_usage = Some (Fin (1 / 2)), sessions = Some [\<lparr> terminal = Str ''pts/0'',
        session_from = Some ''10.0.0.5'' \<rparr>] \<rparr>],
        snap_system = \<lparr> sr_cpu = Some \<lparr> cpu_usage_percent = Some (Fin 12),
        cpu_cores = Num (Fin 8) \<rparr>,
        sr_memory = Some \<lparr> mem_usage_percent = Some (Fin 50), mem_used = Num (Fin 8192),
        mem_total = Num (Fin 16384) \<rparr>,
        sr_disk = Some \<lparr> disk_usage_percent = Some (Fin 40), disk_used = Str ''40G'',
        disk_total = Str ''100G'' \<rparr>,
        sr_storage_disks = Some [\<lparr> sd_mount_point = Some ''/mnt/data'',
        sd_used = Str ''1T'', sd_total = Str ''2T'', sd_available = Str ''1T'',
        sd_usage_percent = Some (Fin 50) \<rparr>],
        sr_storage_summary = Some \<lparr> sum_used = Str ''1T'', sum_total = Str ''2T'',
        sum_available = Str ''1T'', sum_usage_percent = Some (Fin 50) \<rparr> \<rparr>,
        snap_timestamp = 1000, snap_failures = [] \<rparr>, 1000),
        cache_lastError = Some ConnectionError \<rparr>)"
proof -
  let ?outa = "\<lparr> gpu_outcome = Inr [\<lparr> gpu_id = Num (Fin 0),
    gpu_name = Str ''Tesla T4'', memory_used = Some (Fin 1024),
    memory_total = Some (Fin 16384), temperature = Num (Fin 42), power_usage = Num (Fin 70),
    gpu_user = Str ''alice'' \<rparr>],
    cpu_outcome = Inr \<lparr> cpu_usage_percent = Some (Fin 12),
    cpu_cores = Num (Fin 8) \<rparr>,
    memory_outcome = Inr \<lparr> mem_usage_percent = Some (Fin 50), mem_used = Num (Fin 8192),
    mem_total = Num (Fin 16384) \<rparr>,
    disk_outcome = Inr \<lparr> disk_usage_percent = Some (Fin 40), disk_used = Str ''40G'',
    disk_total = Str ''100G'' \<rparr>,
    partitions_outcome = Inr ([\<lparr> sd_mount_point = Some ''/mnt/data'',
    sd_used = Str ''1T'', sd_total = Str ''2T'', sd_available = Str ''1T'',
    sd_usage_percent = Some (Fin 50) \<rparr>], \<lparr> sum_used = Str ''1T'',
    sum_total = Str ''2T'', sum_available = Str ''1T'',
    sum_usage_percent = Some (Fin 50) \<rparr>),
    users_outcome = Inr [\<lparr> username = Str ''alice'', cpu_usage = Some (Fin 3),
    memory_usage = Some (Fin 4), gpu_memory_usage = Some (Fin 0),
    storage_usage = Some (Fin (1 / 2)), sessions = Some [\<lparr> terminal = Str ''pts/0'',
    session_from = Some ''10.0.0.5'' \<rparr>] \<rparr>] \<rparr>"
  let ?outf = "\<lparr> gpu_outcome = Inl ConnectionError, cpu_outcome = Inl ConnectionError,
    memory_outcome = Inl ConnectionError, disk_outcome = Inl ConnectionError,
    partitions_outcome = Inl ConnectionError, users_outcome = Inl ConnectionError \<rparr>"
  let ?s = "\<lparr> snap_gpus = [\<lparr> gpu_id = Num (Fin 0), gpu_name = Str ''Tesla T4'',
    memory_used = Some (Fin 1024), memory_total = Some (Fin 16384), temperature = Num (Fin 42),
    power_usage = Num (Fin 70), gpu_user = Str ''alice'' \<rparr>],
    snap_users = [\<lparr> username = Str ''alice'', cpu_usage = Some (Fin 3),
    memory_usage = Some (Fin 4), gpu_memory_usage = Some (Fin 0),
    storage_usage = Some (Fin (1 / 2)), sessions = Some [\<lparr> terminal = Str ''pts/0'',
    session_from = Some ''10.0.0.5'' \<rparr>] \<rparr>],
    snap_system = \<lparr> sr_cpu = Some \<lparr> cpu_usage_percent = Some (Fin 12),
    cpu_cores = Num (Fin 8) \<rparr>,
    sr_memory = Some \<lparr> mem_usage_percent = Some (Fin 50), mem_used = Num (Fin 8192),
    mem_total = Num (Fin 16384) \<rparr>,
    sr_disk = Some \<lparr> disk_usage_percent = Some (Fin 40), disk_used = Str ''40G'',
    disk_total = Str ''100G'' \<rparr>,
    sr_storage_disks = Some [\<lparr> sd_mount_point = Some ''/mnt/data'',
    sd_used = Str ''1T'', sd_total = Str ''2T'', sd_available = Str ''1T'',
    sd_usage_percent = Some (Fin 50) \<rparr>],
    sr_storage_summary = Some \<lparr> sum_used = Str ''1T'', sum_total = Str ''2T'',
    sum_available = Str ''1T'', sum_usage_percent = Some (Fin 50) \<rparr> \<rparr>,
    snap_timestamp = 1000, snap_failures = [] \<rparr>"
  let ?empty = "\<lparr> cached = None, cache_lastError = None \<rparr>"
  let ?c = "\<lparr> cached = Some (?s, 1000), cache_lastError = None \<rparr>"
  have s: "collect True 1000 ?outa = ?s"
    by (simp add: collect_def)
  have ok: "\<not> session_failed (collect True 1000 ?outa)"
    by (simp add: s session_failed_def all_metrics_def)
  have c: "cached ?c = Some (?s, 1000)" by simp
  have age: "(5000::nat) < 20000 - 1000" by simp
  note inst = stale_snapshot_served [OF c age, of ?outf ?outa ?empty]
  from inst [THEN conjunct2, THEN conjunct2, THEN conjunct2] ok
  have a: "fst (getCurrent 5000 20000 False ?outf (snd (forceRefresh 1000 True ?outa ?empty)))
      = \<lparr> served_snapshot = Some (collect True 1000 ?outa), isStale = True,
          lastError = Some ConnectionError \<rparr>"
    by (rule mp)
  from inst [THEN conjunct1]
  have b: "getCurrent 5000 20000 False ?outf ?c
      = (\<lparr> served_snapshot = Some ?s, isStale = True,
        lastError = Some ConnectionError \<rparr>,
         ?c\<lparr> cache_lastError := Some ConnectionError \<rparr>)" .
  from a have a': "fst (getCurrent 5000 20000 False ?outf (snd (forceRefresh 1000 True ?outa ?empty)))
      = \<lparr> served_snapshot = Some ?s, isStale = True,
        lastError = Some ConnectionError \<rparr>"
    by (simp only: s)
  from b have b': "getCurrent 5000 20000 False ?outf ?c
      = (\<lparr> served_snapshot = Some ?s, isStale = True,
        lastError = Some ConnectionError \<rparr>,
         \<lparr> cached = Some (?s, 1000), cache_lastError = Some ConnectionError \<rparr>)"
    by simp
  from a' b' show ?thesis by (rule conjI)
qed

lemma run_events_append: "run_events (xs @ ys) m = run_events ys (run_events xs m)"
  by (induction xs arbitrary: m) simp_all

lemma run_calls_refreshing:
  "phase m = Refreshing \<Longrightarrow>
   run_events (calls cs) m = m\<lparr> waiting := waiting m @ map fst cs \<rparr>"
proof (induction cs arbitrary: m)
  case Nil
  then show ?case by (simp add: calls_def)
next
  case (Cons c cs)
  obtain k a n where c: "c = (k, a, n)" by (cases c)
  have step: "cache_step (GetCurrent k a n) m = m\<lparr> waiting := waiting m @ [k] \<rparr>"
    using Cons.prems by simp
  have "run_events (calls (c # cs)) m = run_events (calls cs) (m\<lparr> waiting := waiting m @ [k] \<rparr>)"
    using step by (simp add: calls_def c)
  also have "\<dots> = m\<lparr> waiting := waiting m @ [k] \<rparr>
      \<lparr> waiting := waiting (m\<lparr> waiting := waiting m @ [k] \<rparr>) @ map fst cs \<rparr>"
    using Cons.prems by (intro Cons.IH) simp
  finally show ?case by (simp add: c)
qed

lemma single_flight_refreshing:
  assumes "phase m = Refreshing"
  shows "run_events (calls cs @ [CollectDone now reachable out]) m
     = m\<lparr> phase := Idle,
          store := snd (refresh now (collect reachable now out) (store m)),
          answers := answers m @
            map (\<lambda>k. (k, fst (refresh now (collect reachable now out) (store m))))
              (waiting m @ map fst cs),
          waiting := [] \<rparr>"
  using assms
  by (simp add: run_events_append run_calls_refreshing Let_def)

text \<open>
  The machine agrees with \<^verbatim>\<open>getCurrent\<close> for a single caller: a call that finds the
  cache expired, followed by the completion of its collection, leaves the cache and the
  answer that \<^verbatim>\<open>getCurrent\<close> computes.
\<close>

lemma machine_single_call:
  assumes "phase m = Idle" and "expired a n (store m)"
  shows "run_events [GetCurrent k a n, CollectDone n reachable out] m
     = m\<lparr> phase := Idle,
          store := snd (getCurrent a n reachable out (store m)),
          waiting := [],
          collects := collects m + 1,
          answers := answers m @ [(k, fst (getCurrent a n reachable out (store m)))] \<rparr>"
  using assms by (simp add: start_collect_def getCurrent_def Let_def)

text \<open>
  C5: while the cache is \<open>Refreshing\<close>, any number of \<^verbatim>\<open>getCurrent\<close> calls, whatever their
  \<open>maxAge\<close>, start no collection: when the collection in flight completes, the number of
  \<^verbatim>\<open>Aggregator.collect()\<close> invocations is what it was, the machine is \<open>Idle\<close>, and every
  caller, those already waiting and the new ones, has received the same result of that one
  collection. Counted from an \<open>Idle\<close> cache whose Snapshot has expired: the first call
  starts the one collection, and all callers receive its result.
\<close>

theorem single_flight:
  assumes "phase m = Refreshing"
  shows "collects (run_events (calls cs @ [CollectDone now reachable out]) m) = collects m \<and>
         phase (run_events (calls cs @ [CollectDone now reachable out]) m) = Idle \<and>
         waiting (run_events (calls cs @ [CollectDone now reachable out]) m) = [] \<and>
         store (run_events (calls cs @ [CollectDone now reachable out]) m)
           = snd (refresh now (collect reachable now out) (store m)) \<and>
         answers (run_events (calls cs @ [CollectDone now reachable out]) m)
           = answers m @
             map (\<lambda>k. (k, fst (refresh now (collect reachable now out) (store m))))
               (waiting m @ map fst cs) \<and>
         (phase m0 = Idle \<and> expired a0 n0 (store m0) \<longrightarrow>
            collects (run_events (calls ((k0, a0,
              n0) # cs) @ [CollectDone now reachable out]) m0)
              = collects m0 + 1 \<and>
            answers (run_events (calls ((k0, a0,
              n0) # cs) @ [CollectDone now reachable out]) m0)
              = answers m0 @
                map (\<lambda>k. (k, fst (refresh now (collect reachable now out) (store m0))))
                  (k0 # map fst cs))"
proof -
  note run = single_flight_refreshing [OF assms, of cs now reachable out]
  have idle: "phase m0 = Idle \<and> expired a0 n0 (store m0) \<longrightarrow>
            collects (run_events (calls ((k0, a0,
              n0) # cs) @ [CollectDone now reachable out]) m0)
              = collects m0 + 1 \<and>
            answers (run_events (calls ((k0, a0,
              n0) # cs) @ [CollectDone now reachable out]) m0)
              = answers m0 @
                map (\<lambda>k. (k, fst (refresh now (collect reachable now out) (store m0))))
                  (k0 # map fst cs)"
  proof
    assume a: "phase m0 = Idle \<and> expired a0 n0 (store m0)"
    then have first: "cache_step (GetCurrent k0 a0 n0) m0 = start_collect k0 m0" by simp
    have ph: "phase (start_collect k0 m0) = Refreshing" by (simp add: start_collect_def)
    have "run_events (calls ((k0, a0, n0) # cs) @ [CollectDone now reachable out]) m0
        = run_events (calls cs @ [CollectDone now reachable out]) (start_collect k0 m0)"
      using first by (simp add: calls_def)
    also note single_flight_refreshing [OF ph, of cs now reachable out]
    finally have "run_events (calls ((k0, a0, n0) # cs) @ [CollectDone now reachable out]) m0
        = (start_collect k0 m0)\<lparr> phase := Idle,
            store := snd (refresh now (collect reachable now out) (store (start_collect k0 m0))),
            answers := answers (start_collect k0 m0) @
              map (\<lambda>k. (k, fst (refresh now (collect reachable now out)
                    (store (start_collect k0 m0)))))
                (waiting (start_collect k0 m0) @ map fst cs),
            waiting := [] \<rparr>" .
    then show "collects (run_events (calls ((k0, a0,
      n0) # cs) @ [CollectDone now reachable out]) m0)
              = collects m0 + 1 \<and>
            answers (run_events (calls ((k0, a0,
              n0) # cs) @ [CollectDone now reachable out]) m0)
              = answers m0 @
                map (\<lambda>k. (k, fst (refresh now (collect reachable now out) (store m0))))
                  (k0 # map fst cs)"
      by (simp add: start_collect_def)
  qed
  from run idle show ?thesis by simp
qed

text \<open>
  The theorem at a machine that is \<open>Refreshing\<close> for caller 0 with an empty cache, after one
  collection was started: callers 1, 2 and 3 call \<^verbatim>\<open>getCurrent\<close> with different maximal
  ages, then the collection completes with a Snapshot. Still one collection was started,
  and the four callers hold the same Snapshot. The same four calls on an \<open>Idle\<close> machine
  with an empty cache start one collection, and the callers hold the same Snapshot.
\<close>

theorem single_flight_witness:
  "collects (run_events
       (calls [(1, 5000, 100), (2, 5000, 101), (3, 0, 102)] @
        [CollectDone 200 True
           \<lparr> gpu_outcome = Inr [\<lparr> gpu_id = Num (Fin 0),
             gpu_name = Str ''Tesla T4'', memory_used = Some (Fin 1024),
             memory_total = Some (Fin 16384), temperature = Num (Fin 42),
             power_usage = Num (Fin 70), gpu_user = Str ''alice'' \<rparr>],
             cpu_outcome = Inr \<lparr> cpu_usage_percent = Some (Fin 12),
             cpu_cores = Num (Fin 8) \<rparr>,
             memory_outcome = Inr \<lparr> mem_usage_percent = Some (Fin 50),
             mem_used = Num (Fin 8192), mem_total = Num (Fin 16384) \<rparr>,
             disk_outcome = Inr \<lparr> disk_usage_percent = Some (Fin 40),
             disk_used = Str ''40G'', disk_total = Str ''100G'' \<rparr>,
             partitions_outcome = Inr ([\<lparr> sd_mount_point = Some ''/mnt/data'',
             sd_used = Str ''1T'', sd_total = Str ''2T'', sd_available = Str ''1T'',
             sd_usage_percent = Some (Fin 50) \<rparr>], \<lparr> sum_used = Str ''1T'',
             sum_total = Str ''2T'', sum_available = Str ''1T'',
             sum_usage_percent = Some (Fin 50) \<rparr>),
             users_outcome = Inr [\<lparr> username = Str ''alice'', cpu_usage = Some (Fin 3),
             memory_usage = Some (Fin 4), gpu_memory_usage = Some (Fin 0),
             storage_usage = Some (Fin (1 / 2)),
             sessions = Some [\<lparr> terminal = Str ''pts/0'',
             session_from = Some ''10.0.0.5'' \<rparr>] \<rparr>] \<rparr>])
       \<lparr> phase = Refreshing, store = \<lparr> cached = None,
         cache_lastError = None \<rparr>, waiting = [0],
         collects = 1, answers = [] \<rparr>) = 1 \<and>
   answers (run_events
       (calls [(1, 5000, 100), (2, 5000, 101), (3, 0, 102)] @
        [CollectDone 200 True
           \<lparr> gpu_outcome = Inr [\<lparr> gpu_id = Num (Fin 0),
             gpu_name = Str ''Tesla T4'', memory_used = Some (Fin 1024),
             memory_total = Some (Fin 16384), temperature = Num (Fin 42),
             power_usage = Num (Fin 70), gpu_user = Str ''alice'' \<rparr>],
             cpu_outcome = Inr \<lparr> cpu_usage_percent = Some (Fin 12),
             cpu_cores = Num (Fin 8) \<rparr>,
             memory_outcome = Inr \<lparr> mem_usage_percent = Some (Fin 50),
             mem_used = Num (Fin 8192), mem_total = Num (Fin 16384) \<rparr>,
             disk_outcome = Inr \<lparr> disk_usage_percent = Some (Fin 40),
             disk_used = Str ''40G'', disk_total = Str ''100G'' \<rparr>,
             partitions_outcome = Inr ([\<lparr> sd_mount_point = Some ''/mnt/data'',
             sd_used = Str ''1T'', sd_total = Str ''2T'', sd_available = Str ''1T'',
             sd_usage_percent = Some (Fin 50) \<rparr>], \<lparr> sum_used = Str ''1T'',
             sum_total = Str ''2T'', sum_available = Str ''1T'',
             sum_usage_percent = Some (Fin 50) \<rparr>),
             users_outcome = Inr [\<lparr> username = Str ''alice'', cpu_usage = Some (Fin 3),
             memory_usage = Some (Fin 4), gpu_memory_usage = Some (Fin 0),
             storage_usage = Some (Fin (1 / 2)),
             sessions = Some [\<lparr> terminal = Str ''pts/0'',
             session_from = Some ''10.0.0.5'' \<rparr>] \<rparr>] \<rparr>])
       \<lparr> phase = Refreshing, store = \<lparr> cached = None,
         cache_lastError = None \<rparr>, waiting = [0],
         collects = 1, answers = [] \<rparr>)
     = map (\<lambda>k. (k, \<lparr> served_snapshot = Some (collect True 200
           \<lparr> gpu_outcome = Inr [\<lparr> gpu_id = Num (Fin 0),
             gpu_name = Str ''Tesla T4'', memory_used = Some (Fin 1024),
             memory_total = Some (Fin 16384), temperature = Num (Fin 42),
             power_usage = Num (Fin 70), gpu_user = Str ''alice'' \<rparr>],
             cpu_outcome = Inr \<lparr> cpu_usage_percent = Some (Fin 12),
             cpu_cores = Num (Fin 8) \<rparr>,
             memory_outcome = Inr \<lparr> mem_usage_percent = Some (Fin 50),
             mem_used = Num (Fin 8192), mem_total = Num (Fin 16384) \<rparr>,
             disk_outcome = Inr \<lparr> disk_usage_percent = Some (Fin 40),
             disk_used = Str ''40G'', disk_total = Str ''100G'' \<rparr>,
             partitions_outcome = Inr ([\<lparr> sd_mount_point = Some ''/mnt/data'',
             sd_used = Str ''1T'', sd_total = Str ''2T'', sd_available = Str ''1T'',
             sd_usage_percent = Some (Fin 50) \<rparr>], \<lparr> sum_used = Str ''1T'',
             sum_total = Str ''2T'', sum_available = Str ''1T'',
             sum_usage_percent = Some (Fin 50) \<rparr>),
             users_outcome = Inr [\<lparr> username = Str ''alice'', cpu_usage = Some (Fin 3),
             memory_usage = Some (Fin 4), gpu_memory_usage = Some (Fin 0),
             storage_usage = Some (Fin (1 / 2)),
             sessions = Some [\<lparr> terminal = Str ''pts/0'',
             session_from = Some ''10.0.0.5'' \<rparr>] \<rparr>] \<rparr>),
         isStale = False, lastError = None \<rparr>)) [0, 1, 2, 3] \<and>
   collects (run_events
       (calls [(0, 5000, 99), (1, 5000, 100), (2, 5000, 101), (3, 0, 102)] @
        [CollectDone 200 True
           \<lparr> gpu_outcome = Inr [\<lparr> gpu_id = Num (Fin 0),
             gpu_name = Str ''Tesla T4'', memory_used = Some (Fin 1024),
             memory_total = Some (Fin 16384), temperature = Num (Fin 42),
             power_usage = Num (Fin 70), gpu_user = Str ''alice'' \<rparr>],
             cpu_outcome = Inr \<lparr> cpu_usage_percent = Some (Fin 12),
             cpu_cores = Num (Fin 8) \<rparr>,
             memory_outcome = Inr \<lparr> mem_usage_percent = Some (Fin 50),
             mem_used = Num (Fin 8192), mem_total = Num (Fin 16384) \<rparr>,
             disk_outcome = Inr \<lparr> disk_usage_percent = Some (Fin 40),
             disk_used = Str ''40G'', disk_total = Str ''100G'' \<rparr>,
             partitions_outcome = Inr ([\<lparr> sd_mount_point = Some ''/mnt/data'',
             sd_used = Str ''1T'', sd_total = Str ''2T'', sd_available = Str ''1T'',
             sd_usage_percent = Some (Fin 50) \<rparr>], \<lparr> sum_used = Str ''1T'',
             sum_total = Str ''2T'', sum_available = Str ''1T'',
             sum_usage_percent = Some (Fin 50) \<rparr>),
             users_outcome = Inr [\<lparr> username = Str ''alice'', cpu_usage = Some (Fin 3),
             memory_usage = Some (Fin 4), gpu_memory_usage = Some (Fin 0),
             storage_usage = Some (Fin (1 / 2)),
             sessions = Some [\<lparr> terminal = Str ''pts/0'',
             session_from = Some ''10.0.0.5'' \<rparr>] \<rparr>] \<rparr>])
       \<lparr> phase = Idle, store = \<lparr> cached = None, cache_lastError = None \<rparr>,
         waiting = [],
         collects = 0, answers = [] \<rparr>) = 1 \<and>
   answers (run_events
       (calls [(0, 5000, 99), (1, 5000, 100), (2, 5000, 101), (3, 0, 102)] @
        [CollectDone 200 True
           \<lparr> gpu_outcome = Inr [\<lparr> gpu_id = Num (Fin 0),
             gpu_name = Str ''Tesla T4'', memory_used = Some (Fin 1024),
             memory_total = Some (Fin 16384), temperature = Num (Fin 42),
             power_usage = Num (Fin 70), gpu_user = Str ''alice'' \<rparr>],
             cpu_outcome = Inr \<lparr> cpu_usage_percent = Some (Fin 12),
             cpu_cores = Num (Fin 8) \<rparr>,
             memory_outcome = Inr \<lparr> mem_usage_percent = Some (Fin 50),
             mem_used = Num (Fin 8192), mem_total = Num (Fin 16384) \<rparr>,
             disk_outcome = Inr \<lparr> disk_usage_percent = Some (Fin 40),
             disk_used = Str ''40G'', disk_total = Str ''100G'' \<rparr>,
             partitions_outcome = Inr ([\<lparr> sd_mount_point = Some ''/mnt/data'',
             sd_used = Str ''1T'', sd_total = Str ''2T'', sd_available = Str ''1T'',
             sd_usage_percent = Some (Fin 50) \<rparr>], \<lparr> sum_used = Str ''1T'',
             sum_total = Str ''2T'', sum_available = Str ''1T'',
             sum_usage_percent = Some (Fin 50) \<rparr>),
             users_outcome = Inr [\<lparr> username = Str ''alice'', cpu_usage = Some (Fin 3),
             memory_usage = Some (Fin 4), gpu_memory_usage = Some (Fin 0),
             storage_usage = Some (Fin (1 / 2)),
             sessions = Some [\<lparr> terminal = Str ''pts/0'',
             session_from = Some ''10.0.0.5'' \<rparr>] \<rparr>] \<rparr>])
       \<lparr> phase = Idle, store = \<lparr> cached = None, cache_lastError = None \<rparr>,
         waiting = [],
         collects = 0, answers = [] \<rparr>)
     = map (\<lambda>k. (k, \<lparr> served_snapshot = Some (collect True 200
           \<lparr> gpu_outcome = Inr [\<lparr> gpu_id = Num (Fin 0),
             gpu_name = Str ''Tesla T4'', memory_used = Some (Fin 1024),
             memory_total = Some (Fin 16384), temperature = Num (Fin 42),
             power_usage = Num (Fin 70), gpu_user = Str ''alice'' \<rparr>],
             cpu_outcome = Inr \<lparr> cpu_usage_percent = Some (Fin 12),
             cpu_cores = Num (Fin 8) \<rparr>,
             memory_outcome = Inr \<lparr> mem_usage_percent = Some (Fin 50),
             mem_used = Num (Fin 8192), mem_total = Num (Fin 16384) \<rparr>,
             disk_outcome = Inr \<lparr> disk_usage_percent = Some (Fin 40),
             disk_used = Str ''40G'', disk_total = Str ''100G'' \<rparr>,
             partitions_outcome = Inr ([\<lparr> sd_mount_point = Some ''/mnt/data'',
             sd_used = Str ''1T'', sd_total = Str ''2T'', sd_available = Str ''1T'',
             sd_usage_percent = Some (Fin 50) \<rparr>], \<lparr> sum_used = Str ''1T'',
             sum_total = Str ''2T'', sum_available = Str ''1T'',
             sum_usage_percent = Some (Fin 50) \<rparr>),
             users_outcome = Inr [\<lparr> username = Str ''alice'', cpu_usage = Some (Fin 3),
             memory_usage = Some (Fin 4), gpu_memory_usage = Some (Fin 0),
             storage_usage = Some (Fin (1 / 2)),
             sessions = Some [\<lparr> terminal = Str ''pts/0'',
             session_from = Some ''10.0.0.5'' \<rparr>] \<rparr>] \<rparr>),
         isStale = False, lastError = None \<rparr>)) [0, 1, 2, 3]"
proof -
  let ?outa = "\<lparr> gpu_outcome = Inr [\<lparr> gpu_id = Num (Fin 0),
    gpu_name = Str ''Tesla T4'', memory_used = Some (Fin 1024),
    memory_total = Some (Fin 16384), temperature = Num (Fin 42), power_usage = Num (Fin 70),
    gpu_user = Str ''alice'' \<rparr>],
    cpu_outcome = Inr \<lparr> cpu_usage_percent = Some (Fin 12),
    cpu_cores = Num (Fin 8) \<rparr>,
    memory_outcome = Inr \<lparr> mem_usage_percent = Some (Fin 50), mem_used = Num (Fin 8192),
    mem_total = Num (Fin 16384) \<rparr>,
    disk_outcome = Inr \<lparr> disk_usage_percent = Some (Fin 40), disk_used = Str ''40G'',
    disk_total = Str ''100G'' \<rparr>,
    partitions_outcome = Inr ([\<lparr> sd_mount_point = Some ''/mnt/data'',
    sd_used = Str ''1T'', sd_total = Str ''2T'', sd_available = Str ''1T'',
    sd_usage_percent = Some (Fin 50) \<rparr>], \<lparr> sum_used = Str ''1T'',
    sum_total = Str ''2T'', sum_available = Str ''1T'',
    sum_usage_percent = Some (Fin 50) \<rparr>),
    users_outcome = Inr [\<lparr> username = Str ''alice'', cpu_usage = Some (Fin 3),
    memory_usage = Some (Fin 4), gpu_memory_usage = Some (Fin 0),
    storage_usage = Some (Fin (1 / 2)), sessions = Some [\<lparr> terminal = Str ''pts/0'',
    session_from = Some ''10.0.0.5'' \<rparr>] \<rparr>] \<rparr>"
  let ?empty = "\<lparr> cached = None, cache_lastError = None \<rparr>"
  let ?m = "\<lparr> phase = Refreshing, store = ?empty, waiting = [0::nat],
         collects = 1::nat, answers = [] \<rparr>"
  let ?start = "\<lparr> phase = Idle, store = ?empty, waiting = [] :: nat list,
         collects = 0::nat, answers = [] \<rparr>"
  let ?cs = "[(1, 5000, 100), (2, 5000, 101), (3, 0,
    102)] :: (nat \<times> nat \<times> nat) list"
  have ph: "phase ?m = Refreshing" by simp
  have idle: "phase ?start = Idle \<and> expired 5000 99 (store ?start)"
    by (simp add: expired_def)
  have ok: "\<not> session_failed (collect True 200 ?outa)"
    by (simp add: collect_def session_failed_def all_metrics_def)
  note inst = single_flight [OF ph, of ?cs 200 True ?outa ?start 5000 99 0]
  from inst [THEN conjunct1]
  have a: "collects (run_events (calls ?cs @ [CollectDone 200 True ?outa]) ?m) = 1"
    by simp
  from inst [THEN conjunct2, THEN conjunct2, THEN conjunct2, THEN conjunct2, THEN conjunct1]
  have b: "answers (run_events (calls ?cs @ [CollectDone 200 True ?outa]) ?m)
     = map (\<lambda>k. (k, \<lparr> served_snapshot = Some (collect True 200 ?outa),
         isStale = False, lastError = None \<rparr>)) [0, 1, 2, 3]"
    by (simp add: refresh_published [OF ok])
  from inst [THEN conjunct2, THEN conjunct2, THEN conjunct2, THEN conjunct2, THEN conjunct2]
    idle
  have c: "collects (run_events (calls ((0, 5000,
    99) # ?cs) @ [CollectDone 200 True ?outa]) ?start)
       = collects ?start + 1 \<and>
     answers (run_events (calls ((0, 5000, 99) # ?cs) @ [CollectDone 200 True ?outa]) ?start)
       = answers ?start @
         map (\<lambda>k. (k, fst (refresh 200 (collect True 200 ?outa) (store ?start))))
           (0 # map fst ?cs)"
    by (rule mp)
  from c have c1: "collects (run_events
        (calls [(0, 5000, 99), (1, 5000, 100), (2, 5000, 101), (3, 0, 102)] @
         [CollectDone 200 True ?outa]) ?start) = 1"
    by simp
  from c have c2: "answers (run_events
        (calls [(0, 5000, 99), (1, 5000, 100), (2, 5000, 101), (3, 0, 102)] @
         [CollectDone 200 True ?outa]) ?start)
     = map (\<lambda>k. (k, \<lparr> served_snapshot = Some (collect True 200 ?outa),
         isStale = False, lastError = None \<rparr>)) [0, 1, 2, 3]"
    by (simp add: refresh_published [OF ok])
  from a b c1 c2 show ?thesis by (intro conjI)
qed



end
